theory Spec2Isabelle
  imports Complex_Main "HOL-Library.Sublist"
begin

section \<open>Python values\<close>

text \<open>
  A Python \<open>str\<close> is a sequence of Unicode code points, and \<open>len\<close> counts code points.
  It is modelled as the list of its code points; \<open>lit\<close> writes an ASCII literal.
\<close>

type_synonym pystr = "nat list"

abbreviation lit :: "string \<Rightarrow> pystr" where
  "lit s \<equiv> map of_char s"

text \<open>
  A Python \<open>float\<close> is an IEEE 754 double: a finite number (\<open>Finite 0\<close> is \<open>0.0\<close>), the
  negative zero, an infinity, or a NaN. Only the doubles occur under \<open>Finite\<close>.
\<close>

datatype pyfloat = Finite rat | Minus_zero | Infinity | Minus_infinity | NaN

text \<open>
  What \<open>json.loads\<close> returns: the raw argument values a tool call carries. A JSON
  object is the list of its entries, read with \<open>map_of\<close>.
\<close>

datatype json =
    JNull
  | JBool bool
  | JInt int
  | JFloat pyfloat
  | JStr pystr
  | JList "json list"
  | JObject "(pystr \<times> json) list"

type_synonym kwargs = "pystr \<rightharpoonup> json"

text \<open>
  A raised exception, with the name of its class and the outcome of \<open>str(e)\<close>.
  \<open>Exception\<close> stands for every class derived from Python's \<open>Exception\<close>, which
  \<open>except Exception\<close> catches; \<open>BaseException\<close> for the classes derived from
  \<open>BaseException\<close> only (\<open>SystemExit\<close>, \<open>KeyboardInterrupt\<close>, \<open>GeneratorExit\<close>), which it
  lets through.

  A computation that ends is a value of \<open>exn + 'a\<close>: \<open>Inl e\<close> raises \<open>e\<close>, \<open>Inr x\<close> returns
  \<open>x\<close>. A computation that may run forever is a value of \<open>(exn + 'a) option\<close>: \<open>None\<close>
  when it does not end. \<open>str(e)\<close> is such a computation, since the class of \<open>e\<close> may
  define \<open>__str__\<close>; \<open>plain c m\<close> is an exception of the class \<open>c\<close> whose text is \<open>m\<close>.
\<close>

datatype exn =
    Exception pystr "(exn + pystr) option"
  | BaseException pystr "(exn + pystr) option"



definition plain :: "pystr \<Rightarrow> pystr \<Rightarrow> exn" where
  "plain c m = Exception c (Some (Inr m))"

definition and_then :: "exn + 'a \<Rightarrow> ('a \<Rightarrow> exn + 'b) \<Rightarrow> exn + 'b" where
  "and_then r f = (case r of Inl e \<Rightarrow> Inl e | Inr x \<Rightarrow> f x)"

definition and_run ::
  "(exn + 'a) option \<Rightarrow> ('a \<Rightarrow> (exn + 'b) option) \<Rightarrow> (exn + 'b) option" where
  "and_run r f = (case r of None \<Rightarrow> None | Some (Inl e) \<Rightarrow> Some (Inl e) | Some (Inr x) \<Rightarrow> f x)"

text \<open>
  The numbers of Python's arithmetic, and the values an evaluated expression can have:
  the two numeric types and others.
\<close>

datatype number = PyInt int | PyFloat pyfloat

datatype pyval = VInt int | VFloat pyfloat | VEmptyTuple | VObject nat

fun is_numeric :: "pyval \<Rightarrow> bool" where
  "is_numeric (VInt n) = True"
| "is_numeric (VFloat x) = True"
| "is_numeric VEmptyTuple = False"
| "is_numeric (VObject k) = False"

fun of_number :: "number \<Rightarrow> pyval" where
  "of_number (PyInt n) = VInt n"
| "of_number (PyFloat x) = VFloat x"

text \<open>A \<open>datetime.date\<close>: year, month and day of the proleptic Gregorian calendar.\<close>

record date =
  year :: int
  month :: int
  day :: int

text \<open>
  What \<open>handle_conversation\<close> prints: the query, the tool and the decoded arguments of a
  call, the result of a call, the answer of the assistant.
\<close>

datatype printed =
    User_query pystr
  | Tool_decision pystr json
  | Tool_result pystr
  | Agent_response pystr

section \<open>The libraries\<close>

text \<open>
  The source calls into Python's built-ins, \<open>datetime\<close>, \<open>json\<close> and pydantic. What these
  do on the inputs the source fixes is modelled below by definitions. What the source
  leaves to them is a field of the record \<open>library\<close>, over which every theorem
  quantifies:
  \<^item> \<open>eval_other\<close>: \<open>eval\<close> of an expression outside the arithmetic fragment of
    \<open>py_eval\<close>: it returns, raises, or does not end;
  \<^item> \<open>eval_limit\<close>: the exception that \<open>eval\<close> raises on an expression of the fragment
    of more than 100 characters when a limit of the interpreter is met (the nesting
    of parentheses, the depth of the recursion of the compiler, the digits of an
    integer literal, the memory), \<open>None\<close> when none is met;
  \<^item> \<open>str_other\<close>: \<open>str\<close> of an object and of an integer of 4300 digits or more: it
    returns, raises, or does not end;
  \<^item> \<open>float_repr\<close>: \<open>str\<close> of a float;
  \<^item> \<open>lax_float\<close>, \<open>lax_int\<close>, \<open>lax_bool\<close>, \<open>lax_date\<close>: pydantic's coercion of an
    input that does not have the field's type already (\<open>None\<close>: rejected);
  \<^item> \<open>unicode_lower\<close>: \<open>str.lower\<close> on a string with a code point other than ASCII or
    U+0130;
  \<^item> \<open>describe\<close>: the text of a message that a library writes;
  \<^item> \<open>today\<close>: \<open>date.today()\<close>;
  \<^item> \<open>json_loads\<close>: \<open>json.loads\<close>;
  \<^item> \<open>print_raises\<close>: the exception that \<open>print\<close> raises (\<open>UnicodeEncodeError\<close> when the
    output cannot encode the text, \<open>BrokenPipeError\<close>), \<open>None\<close> when it prints.
\<close>

datatype field_error = Missing | Invalid

datatype failure =
    Validation pystr "(pystr \<times> field_error) list"
  | Not_a_mapping pystr
  | Invalid_syntax pystr
  | Division_by_zero
  | Float_division_by_zero
  | Int_too_large_for_float
  | Quotient_too_large_for_float
  | Days_magnitude int
  | Date_out_of_range

record library =
  eval_other :: "pystr \<Rightarrow> (exn + pyval) option"
  eval_limit :: "pystr \<Rightarrow> exn option"
  str_other :: "pyval \<Rightarrow> (exn + pystr) option"
  float_repr :: "pyfloat \<Rightarrow> pystr"
  lax_float :: "json \<Rightarrow> pyfloat option"
  lax_int :: "json \<Rightarrow> int option"
  lax_bool :: "json \<Rightarrow> bool option"
  lax_date :: "json \<Rightarrow> date option"
  unicode_lower :: "pystr \<Rightarrow> pystr"
  describe :: "failure \<Rightarrow> pystr"
  today :: date
  json_loads :: "pystr \<Rightarrow> exn + json"
  print_raises :: "printed \<Rightarrow> exn option"

subsection \<open>Strings\<close>

text \<open>\<open>str(n)\<close> of an integer: its decimal digits, after a minus sign when negative.\<close>

fun digits :: "nat \<Rightarrow> pystr" where
  "digits n = (if n < 10 then [48 + n] else digits (n div 10) @ [48 + n mod 10])"

definition str_int :: "int \<Rightarrow> pystr" where
  "str_int n = (if n < 0 then 45 # digits (nat (- n)) else digits (nat n))"

text \<open>
  \<open>str.lower\<close>: an ASCII capital becomes its small letter, U+0130 (capital I with dot
  above) becomes the two code points U+0069 U+0307, every other ASCII code point stays.
\<close>

definition lower_cp :: "nat \<Rightarrow> pystr" where
  "lower_cp c = (if 65 \<le> c \<and> c \<le> 90 then [c + 32] else if c = 304 then [105, 775] else [c])"

definition py_lower :: "library \<Rightarrow> pystr \<Rightarrow> pystr" where
  "py_lower lib s =
     (if list_all (\<lambda>c. c < 128 \<or> c = 304) s then concat (map lower_cp s)
      else unicode_lower lib s)"

text \<open>
  \<open>s.count(sub)\<close>: the occurrences of \<open>sub\<close> found scanning \<open>s\<close> from the left, the
  scan resuming behind each occurrence found; \<open>len(s) + 1\<close> when \<open>sub\<close> is empty.
\<close>

fun count_from :: "pystr \<Rightarrow> pystr \<Rightarrow> nat" where
  "count_from sub [] = 0"
| "count_from sub (c # cs) =
     (if prefix sub (c # cs) then Suc (count_from sub (drop (length sub - 1) cs))
      else count_from sub cs)"

definition py_count :: "pystr \<Rightarrow> pystr \<Rightarrow> nat" where
  "py_count s sub = (if sub = [] then length s + 1 else count_from sub s)"

text \<open>
  The specification's count, in its words (``counts non-overlapping occurrences of
  \<open>character\<close> within \<open>text\<close>''): \<open>s\<close> has no occurrence of \<open>sub\<close>, or \<open>s\<close> is \<open>u @ sub @ rest\<close>
  where this occurrence is the first of \<open>s\<close>, and \<open>rest\<close> holds the others.
\<close>

inductive nonoverlapping_occurrences :: "pystr \<Rightarrow> pystr \<Rightarrow> nat \<Rightarrow> bool" where
  none: "\<not> sublist sub s \<Longrightarrow> nonoverlapping_occurrences sub s 0"
| found: "s = u @ sub @ rest \<Longrightarrow> \<not> sublist sub (u @ butlast sub) \<Longrightarrow>
     nonoverlapping_occurrences sub rest n \<Longrightarrow> nonoverlapping_occurrences sub s (Suc n)"

subsection \<open>Validation of a pydantic model\<close>

text \<open>
  \<open>Model(**params)\<close> reads each field of the model from the keyword arguments. A field
  declared with \<open>Field(...)\<close> is required; one declared with a default takes the default
  when absent. A key that is no field is ignored. The errors of all fields are
  collected into one \<open>ValidationError\<close>.
\<close>

definition required :: "(json \<Rightarrow> 'a option) \<Rightarrow> kwargs \<Rightarrow> pystr \<Rightarrow> field_error + 'a" where
  "required v kw name =
     (case kw name of
        None \<Rightarrow> Inl Missing
      | Some j \<Rightarrow> (case v j of None \<Rightarrow> Inl Invalid | Some a \<Rightarrow> Inr a))"

definition optional :: "(json \<Rightarrow> 'a option) \<Rightarrow> 'a \<Rightarrow> kwargs \<Rightarrow> pystr \<Rightarrow> field_error + 'a" where
  "optional v dflt kw name =
     (case kw name of
        None \<Rightarrow> Inr dflt
      | Some j \<Rightarrow> (case v j of None \<Rightarrow> Inl Invalid | Some a \<Rightarrow> Inr a))"

definition err_of :: "pystr \<Rightarrow> field_error + 'a \<Rightarrow> (pystr \<times> field_error) list" where
  "err_of name r = (case r of Inl e \<Rightarrow> [(name, e)] | Inr a \<Rightarrow> [])"

definition ValidationError :: "library \<Rightarrow> pystr \<Rightarrow> (pystr \<times> field_error) list \<Rightarrow> exn" where
  "ValidationError lib model errs =
     plain (lit ''ValidationError'') (describe lib (Validation model errs))"

definition ValueError :: "pystr \<Rightarrow> exn" where
  "ValueError m = plain (lit ''ValueError'') m"

text \<open>A \<open>str\<close> field takes a string only; a \<open>bool\<close> field a boolean, or what pydantic coerces.\<close>

definition validate_str :: "json \<Rightarrow> pystr option" where
  "validate_str j = (case j of JStr s \<Rightarrow> Some s | _ \<Rightarrow> None)"

definition validate_bool :: "library \<Rightarrow> json \<Rightarrow> bool option" where
  "validate_bool lib j = (case j of JBool b \<Rightarrow> Some b | _ \<Rightarrow> lax_bool lib j)"

section \<open>The text analysis tool\<close>

record TextAnalysisInput =
  "text" :: pystr
  character :: pystr
  case_sensitive :: bool

definition validate_TextAnalysisInput :: "library \<Rightarrow> kwargs \<Rightarrow> exn + TextAnalysisInput" where
  "validate_TextAnalysisInput lib kw =
     (let t = required validate_str kw (lit ''text'');
          c = required validate_str kw (lit ''character'');
          b = optional (validate_bool lib) False kw (lit ''case_sensitive'')
      in case (t, c, b) of
           (Inr t', Inr c', Inr b') \<Rightarrow>
             Inr \<lparr>text = t', character = c', case_sensitive = b'\<rparr>
         | _ \<Rightarrow>
             Inl (ValidationError lib (lit ''TextAnalysisInput'')
                    (err_of (lit ''text'') t @ err_of (lit ''character'') c
                     @ err_of (lit ''case_sensitive'') b)))"

abbreviation apostrophe :: pystr where
  "apostrophe \<equiv> [39]"

definition text_analysis_tool :: "library \<Rightarrow> TextAnalysisInput \<Rightarrow> pystr" where
  "text_analysis_tool lib input =
     (let text' = (if case_sensitive input then text input else py_lower lib (text input));
          character' =
            (if case_sensitive input then character input else py_lower lib (character input));
          count = py_count text' character'
      in lit ''The character '' @ apostrophe @ character input @ apostrophe
         @ lit '' appears '' @ str_int (int count) @ lit '' times in ''
         @ apostrophe @ text input @ apostrophe)"

section \<open>The math tool\<close>

subsection \<open>Floats\<close>

text \<open>
  The arithmetic of the doubles. \<open>round_to_double\<close> rounds a rational number to the
  nearest double, ties to even: to 53 significant bits, to a multiple of \<open>2 ^ -1074\<close>
  below \<open>2 ^ -1022\<close> (the subnormal numbers), and to an infinity from \<open>2 ^ 1024\<close> on. A
  number that rounds to zero keeps its sign.
\<close>

function bits :: "int \<Rightarrow> int" where
  "bits n = (if n \<le> 0 then 0 else 1 + bits (n div 2))"
  by pat_completeness auto
termination
  by (relation "measure nat") auto

definition pow2 :: "int \<Rightarrow> rat" where
  "pow2 k = (if 0 \<le> k then 2 ^ nat k else 1 / 2 ^ nat (- k))"

definition round_half_even :: "rat \<Rightarrow> int" where
  "round_half_even x =
     (let f = \<lfloor>x\<rfloor>; d = x - of_int f
      in if d < 1 / 2 then f else if 1 / 2 < d then f + 1 else if even f then f else f + 1)"

text \<open>The exponent of a positive number \<open>a\<close>: \<open>2 ^ e \<le> a < 2 ^ (e + 1)\<close>.\<close>

definition exponent :: "rat \<Rightarrow> int" where
  "exponent a =
     (let (n, d) = quotient_of a; k = bits n - bits d in if pow2 k \<le> a then k else k - 1)"

definition round_to_double :: "rat \<Rightarrow> pyfloat" where
  "round_to_double q =
     (if q = 0 then Finite 0
      else let a = \<bar>q\<bar>;
               e = max (exponent a) (- 1022);
               u = pow2 (e - 52);
               r = of_int (round_half_even (a / u)) * u
           in if pow2 1024 \<le> r then (if q < 0 then Minus_infinity else Infinity)
              else if r = 0 then (if q < 0 then Minus_zero else Finite 0)
              else Finite (if q < 0 then - r else r))"

fun finite_value :: "pyfloat \<Rightarrow> rat option" where
  "finite_value (Finite q) = Some q"
| "finite_value Minus_zero = Some 0"
| "finite_value Infinity = None"
| "finite_value Minus_infinity = None"
| "finite_value NaN = None"

fun negative :: "pyfloat \<Rightarrow> bool" where
  "negative (Finite q) = (q < 0)"
| "negative Minus_zero = True"
| "negative Infinity = False"
| "negative Minus_infinity = True"
| "negative NaN = False"

definition signed_zero :: "bool \<Rightarrow> pyfloat" where
  "signed_zero neg = (if neg then Minus_zero else Finite 0)"

definition signed_infinity :: "bool \<Rightarrow> pyfloat" where
  "signed_infinity neg = (if neg then Minus_infinity else Infinity)"

fun float_neg :: "pyfloat \<Rightarrow> pyfloat" where
  "float_neg (Finite q) = (if q = 0 then Minus_zero else Finite (- q))"
| "float_neg Minus_zero = Finite 0"
| "float_neg Infinity = Minus_infinity"
| "float_neg Minus_infinity = Infinity"
| "float_neg NaN = NaN"

text \<open>
  The sum, the product and the quotient of IEEE 754: the exact result, rounded. A sum
  that is exactly zero is \<open>-0.0\<close> only when both terms are; infinities of opposite
  signs add to a NaN, and so do zero times infinity and infinity by infinity.
\<close>

definition float_add :: "pyfloat \<Rightarrow> pyfloat \<Rightarrow> pyfloat" where
  "float_add x y =
     (if x = NaN \<or> y = NaN then NaN
      else case (finite_value x, finite_value y) of
        (Some a, Some b) \<Rightarrow>
          if a + b = 0 then signed_zero (negative x \<and> negative y)
          else round_to_double (a + b)
      | (Some a, None) \<Rightarrow> y
      | (None, Some b) \<Rightarrow> x
      | (None, None) \<Rightarrow> if x = y then x else NaN)"

definition float_sub :: "pyfloat \<Rightarrow> pyfloat \<Rightarrow> pyfloat" where
  "float_sub x y = float_add x (float_neg y)"

definition float_mul :: "pyfloat \<Rightarrow> pyfloat \<Rightarrow> pyfloat" where
  "float_mul x y =
     (if x = NaN \<or> y = NaN then NaN
      else let neg = (negative x \<noteq> negative y)
           in case (finite_value x, finite_value y) of
                (Some a, Some b) \<Rightarrow>
                  if a * b = 0 then signed_zero neg else round_to_double (a * b)
              | (Some a, None) \<Rightarrow> if a = 0 then NaN else signed_infinity neg
              | (None, Some b) \<Rightarrow> if b = 0 then NaN else signed_infinity neg
              | (None, None) \<Rightarrow> signed_infinity neg)"

text \<open>The quotient by a float that is not zero.\<close>

definition float_div :: "pyfloat \<Rightarrow> pyfloat \<Rightarrow> pyfloat" where
  "float_div x y =
     (if x = NaN \<or> y = NaN then NaN
      else let neg = (negative x \<noteq> negative y)
           in case (finite_value x, finite_value y) of
                (Some a, Some b) \<Rightarrow>
                  if a = 0 then signed_zero neg else round_to_double (a / b)
              | (Some a, None) \<Rightarrow> signed_zero neg
              | (None, Some b) \<Rightarrow> signed_infinity neg
              | (None, None) \<Rightarrow> NaN)"

subsection \<open>Python's arithmetic\<close>

text \<open>
  Python's arithmetic has two numeric types. On integers \<open>+ - *\<close> are exact and \<open>/\<close>
  gives the float nearest to the quotient; it raises \<open>ZeroDivisionError\<close> on a divisor
  zero and \<open>OverflowError\<close> when the quotient rounds to an infinity. When an operand is a
  float, the other is converted to a float, which raises \<open>OverflowError\<close> when the
  integer rounds to an infinity, and the operation is that of the floats; \<open>/\<close> raises
  \<open>ZeroDivisionError\<close> on a divisor zero, and nothing else is raised.
\<close>

definition ZeroDivisionError :: "library \<Rightarrow> failure \<Rightarrow> exn" where
  "ZeroDivisionError lib f = plain (lit ''ZeroDivisionError'') (describe lib f)"

definition OverflowError :: "library \<Rightarrow> failure \<Rightarrow> exn" where
  "OverflowError lib f = plain (lit ''OverflowError'') (describe lib f)"

definition is_infinite :: "pyfloat \<Rightarrow> bool" where
  "is_infinite x = (x = Infinity \<or> x = Minus_infinity)"

definition int_to_float :: "library \<Rightarrow> int \<Rightarrow> exn + pyfloat" where
  "int_to_float lib n =
     (let x = round_to_double (of_int n)
      in if is_infinite x then Inl (OverflowError lib Int_too_large_for_float) else Inr x)"

definition int_truediv :: "library \<Rightarrow> int \<Rightarrow> int \<Rightarrow> exn + pyfloat" where
  "int_truediv lib a b =
     (if b = 0 then Inl (ZeroDivisionError lib Division_by_zero)
      else if a = 0 then Inr (signed_zero (b < 0))
      else let x = round_to_double (of_int a / of_int b)
           in if is_infinite x then Inl (OverflowError lib Quotient_too_large_for_float)
              else Inr x)"

definition float_truediv :: "library \<Rightarrow> pyfloat \<Rightarrow> pyfloat \<Rightarrow> exn + pyfloat" where
  "float_truediv lib x y =
     (if finite_value y = Some 0 then Inl (ZeroDivisionError lib Float_division_by_zero)
      else Inr (float_div x y))"

datatype binop = Add | Sub | Mul | Div

definition to_float :: "library \<Rightarrow> number \<Rightarrow> exn + pyfloat" where
  "to_float lib v = (case v of PyInt n \<Rightarrow> int_to_float lib n | PyFloat x \<Rightarrow> Inr x)"

definition float_binary :: "library \<Rightarrow> binop \<Rightarrow> pyfloat \<Rightarrow> pyfloat \<Rightarrow> exn + pyfloat" where
  "float_binary lib op x y =
     (case op of
        Add \<Rightarrow> Inr (float_add x y)
      | Sub \<Rightarrow> Inr (float_sub x y)
      | Mul \<Rightarrow> Inr (float_mul x y)
      | Div \<Rightarrow> float_truediv lib x y)"

definition binary :: "library \<Rightarrow> binop \<Rightarrow> number \<Rightarrow> number \<Rightarrow> exn + number" where
  "binary lib op a b =
     (case (a, b) of
        (PyInt x, PyInt y) \<Rightarrow>
          (case op of
             Add \<Rightarrow> Inr (PyInt (x + y))
           | Sub \<Rightarrow> Inr (PyInt (x - y))
           | Mul \<Rightarrow> Inr (PyInt (x * y))
           | Div \<Rightarrow> and_then (int_truediv lib x y) (\<lambda>r. Inr (PyFloat r)))
      | _ \<Rightarrow>
          and_then (to_float lib a) (\<lambda>x.
          and_then (to_float lib b) (\<lambda>y.
          and_then (float_binary lib op x y) (\<lambda>r. Inr (PyFloat r)))))"

definition negate :: "number \<Rightarrow> number" where
  "negate v = (case v of PyInt n \<Rightarrow> PyInt (- n) | PyFloat x \<Rightarrow> PyFloat (float_neg x))"

subsection \<open>Arithmetic expressions\<close>

text \<open>
  The fragment of Python's expressions that is modelled: decimal integer literals,
  float literals written with a point (\<open>1.5\<close>, \<open>.5\<close>, \<open>5.\<close>), the binary operators
  \<open>+ - * /\<close>, the unary \<open>+ -\<close>, parentheses and spaces.
\<close>

datatype token =
    TNum pystr
  | TDec pystr pystr
  | TPlus | TMinus | TStar | TSlash | TLParen | TRParen

definition is_digit :: "nat \<Rightarrow> bool" where
  "is_digit c = (48 \<le> c \<and> c \<le> 57)"

text \<open>
  The tokens of a string, read from the left; a number is the longest run of digits,
  with one point at most. \<open>None\<close> on a character outside the fragment, on a point
  without a digit, and on the operators \<open>**\<close> and \<open>//\<close>.
\<close>

function lex :: "pystr \<Rightarrow> token list option" where
  "lex [] = Some []"
| "lex (c # cs) =
     (if c = 32 then lex cs
      else if is_digit c \<or> c = 46 then
        (let ip = takeWhile is_digit (c # cs);
             r = dropWhile is_digit (c # cs)
         in if take 1 r = [46] then
              (let fp = takeWhile is_digit (tl r);
                   r' = dropWhile is_digit (tl r)
               in if ip = [] \<and> fp = [] then None
                  else map_option (Cons (TDec ip fp)) (lex r'))
            else map_option (Cons (TNum ip)) (lex r))
      else if c = 43 then map_option (Cons TPlus) (lex cs)
      else if c = 45 then map_option (Cons TMinus) (lex cs)
      else if c = 42 then
        (if take 1 cs = [42] then None else map_option (Cons TStar) (lex cs))
      else if c = 47 then
        (if take 1 cs = [47] then None else map_option (Cons TSlash) (lex cs))
      else if c = 40 then map_option (Cons TLParen) (lex cs)
      else if c = 41 then map_option (Cons TRParen) (lex cs)
      else None)"
  by pat_completeness auto
termination
proof (relation "measure length")
  fix c :: nat and cs ip r fp r'
  assume r: "r = dropWhile is_digit (c # cs)" and point: "take 1 r = [46]"
    and r': "r' = dropWhile is_digit (tl r)"
  have "length r' \<le> length (tl r)"
    unfolding r' by (rule length_dropWhile_le)
  moreover have "length r \<le> length (c # cs)"
    unfolding r by (rule length_dropWhile_le)
  moreover from point have "length (tl r) < length r"
    by (cases r) simp_all
  ultimately show "(r', c # cs) \<in> measure length"
    by simp
next
  fix c :: nat and cs ip r
  assume c: "is_digit c \<or> c = 46" and r: "r = dropWhile is_digit (c # cs)"
    and point: "take 1 r \<noteq> [46]"
  have "is_digit c"
  proof (rule ccontr)
    assume "\<not> is_digit c"
    with c r have "r = 46 # cs" by simp
    with point show False by simp
  qed
  then have "r = dropWhile is_digit cs"
    using r by simp
  moreover have "length (dropWhile is_digit cs) \<le> length cs"
    by (rule length_dropWhile_le)
  ultimately show "(r, c # cs) \<in> measure length"
    by simp
qed simp_all

text \<open>
  A parenthesis that opens right behind a number or a closing parenthesis is a call,
  and \<open>()\<close> is the empty tuple: both are outside the grammar below.
\<close>

fun juxtaposed :: "token list \<Rightarrow> bool" where
  "juxtaposed [] = False"
| "juxtaposed (t # ts) =
     (case (t, ts) of
        (TNum ds, TLParen # ts') \<Rightarrow> True
      | (TDec ds fs, TLParen # ts') \<Rightarrow> True
      | (TRParen, TLParen # ts') \<Rightarrow> True
      | (TLParen, TRParen # ts') \<Rightarrow> True
      | _ \<Rightarrow> juxtaposed ts)"

text \<open>
  The syntax trees. An integer literal has no leading zero, unless it is written with
  zeros only; a float literal stands for the decimal number written.
\<close>

datatype expr = Num int | Dec rat | Pos expr | Neg expr | Bin binop expr expr

definition valid_literal :: "pystr \<Rightarrow> bool" where
  "valid_literal ds = (take 1 ds \<noteq> [48] \<or> list_all (\<lambda>c. c = 48) ds)"

definition literal_value :: "pystr \<Rightarrow> int" where
  "literal_value ds = foldl (\<lambda>a c. 10 * a + (int c - 48)) 0 ds"

definition decimal_value :: "pystr \<Rightarrow> pystr \<Rightarrow> rat" where
  "decimal_value ip fp = of_int (literal_value (ip @ fp)) / 10 ^ length fp"

text \<open>
  The parser, by recursive descent on Python's grammar
  (\<open>sum: sum ('+'|'-') term | term\<close>, \<open>term: term ('*'|'/') factor | factor\<close>,
  \<open>factor: ('+'|'-') factor | atom\<close>, \<open>atom: NUMBER | '(' sum ')'\<close>): one function, with
  the grammar symbol that is being read as an argument (\<open>More_sum e\<close> and
  \<open>More_product e\<close> read the operators that follow the operand \<open>e\<close>). The fuel bounds
  the depth of the calls; \<open>No_fuel\<close> is kept apart from \<open>No_parse\<close>, a syntax error.
\<close>

datatype parse = Parsed expr "token list" | No_parse | No_fuel

datatype nonterm = Sum | More_sum expr | Product | More_product expr | Factor | Atom

primrec parse_from :: "nat \<Rightarrow> nonterm \<Rightarrow> token list \<Rightarrow> parse" where
  "parse_from 0 nt ts = No_fuel"
| "parse_from (Suc n) nt ts =
     (case nt of
        Sum \<Rightarrow>
          (case parse_from n Product ts of
             Parsed e rest \<Rightarrow> parse_from n (More_sum e) rest | r \<Rightarrow> r)
      | More_sum e \<Rightarrow>
          (case ts of
             TPlus # ts' \<Rightarrow>
               (case parse_from n Product ts' of
                  Parsed e' rest \<Rightarrow> parse_from n (More_sum (Bin Add e e')) rest | r \<Rightarrow> r)
           | TMinus # ts' \<Rightarrow>
               (case parse_from n Product ts' of
                  Parsed e' rest \<Rightarrow> parse_from n (More_sum (Bin Sub e e')) rest | r \<Rightarrow> r)
           | _ \<Rightarrow> Parsed e ts)
      | Product \<Rightarrow>
          (case parse_from n Factor ts of
             Parsed e rest \<Rightarrow> parse_from n (More_product e) rest | r \<Rightarrow> r)
      | More_product e \<Rightarrow>
          (case ts of
             TStar # ts' \<Rightarrow>
               (case parse_from n Factor ts' of
                  Parsed e' rest \<Rightarrow> parse_from n (More_product (Bin Mul e e')) rest
                | r \<Rightarrow> r)
           | TSlash # ts' \<Rightarrow>
               (case parse_from n Factor ts' of
                  Parsed e' rest \<Rightarrow> parse_from n (More_product (Bin Div e e')) rest
                | r \<Rightarrow> r)
           | _ \<Rightarrow> Parsed e ts)
      | Factor \<Rightarrow>
          (case ts of
             TPlus # ts' \<Rightarrow>
               (case parse_from n Factor ts' of
                  Parsed e rest \<Rightarrow> Parsed (Pos e) rest | r \<Rightarrow> r)
           | TMinus # ts' \<Rightarrow>
               (case parse_from n Factor ts' of
                  Parsed e rest \<Rightarrow> Parsed (Neg e) rest | r \<Rightarrow> r)
           | _ \<Rightarrow> parse_from n Atom ts)
      | Atom \<Rightarrow>
          (case ts of
             TNum ds # ts' \<Rightarrow>
               (if valid_literal ds then Parsed (Num (literal_value ds)) ts' else No_parse)
           | TDec ip fp # ts' \<Rightarrow> Parsed (Dec (decimal_value ip fp)) ts'
           | TLParen # ts' \<Rightarrow>
               (case parse_from n Sum ts' of
                  Parsed e (TRParen # rest) \<Rightarrow> Parsed e rest
                | Parsed e rest \<Rightarrow> No_parse
                | r \<Rightarrow> r)
           | _ \<Rightarrow> No_parse))"

definition parse_expression :: "token list \<Rightarrow> parse" where
  "parse_expression ts = parse_from (8 * length ts + 8) Sum ts"

subsection \<open>Evaluation\<close>

text \<open>
  The left operand is evaluated first, then the right one, then the operation. A float
  literal is the double nearest to the decimal written.
\<close>

fun arith_eval :: "library \<Rightarrow> expr \<Rightarrow> exn + number" where
  "arith_eval lib (Num n) = Inr (PyInt n)"
| "arith_eval lib (Dec q) = Inr (PyFloat (round_to_double q))"
| "arith_eval lib (Pos e) = arith_eval lib e"
| "arith_eval lib (Neg e) = and_then (arith_eval lib e) (\<lambda>v. Inr (negate v))"
| "arith_eval lib (Bin op l r) =
     and_then (arith_eval lib l) (\<lambda>a.
     and_then (arith_eval lib r) (\<lambda>b. binary lib op a b))"

text \<open>
  \<open>exit()\<close> and \<open>quit()\<close>, the built-ins of the \<open>site\<close> module, raise \<open>SystemExit\<close>.
\<close>

definition calls_exit :: "pystr \<Rightarrow> bool" where
  "calls_exit s =
     (let t = dropWhile (\<lambda>c. c = 32) s
      in (take 4 t = lit ''exit'' \<or> take 4 t = lit ''quit'')
         \<and> filter (\<lambda>c. c \<noteq> 32) (drop 4 t) = lit ''()'')"

definition SyntaxError :: "library \<Rightarrow> pystr \<Rightarrow> exn" where
  "SyntaxError lib s = plain (lit ''SyntaxError'') (describe lib (Invalid_syntax s))"

text \<open>
  \<open>eval(s)\<close>. An expression of the fragment is parsed and evaluated, unless it has more
  than 100 characters and meets a limit of the interpreter. Whatever the fragment does
  not cover is left to \<open>eval_other\<close>.
\<close>

definition py_eval :: "library \<Rightarrow> pystr \<Rightarrow> (exn + pyval) option" where
  "py_eval lib s =
     (if calls_exit s
      then Some (Inl (BaseException (lit ''SystemExit'') (Some (Inr (lit ''None'')))))
      else case lex s of
        None \<Rightarrow> eval_other lib s
      | Some ts \<Rightarrow>
          if ts = [TLParen, TRParen] then Some (Inr VEmptyTuple)
          else if juxtaposed ts then eval_other lib s
          else (case (if 100 < length s then eval_limit lib s else None) of
                  Some e \<Rightarrow> Some (Inl e)
                | None \<Rightarrow>
                    (case parse_expression ts of
                       Parsed e [] \<Rightarrow>
                         Some (case arith_eval lib e of Inl x \<Rightarrow> Inl x | Inr v \<Rightarrow> Inr (of_number v))
                     | No_fuel \<Rightarrow> eval_other lib s
                     | _ \<Rightarrow> Some (Inl (SyntaxError lib s)))))"

subsection \<open>The tool\<close>

record MathInput =
  expression :: pystr

definition validate_MathInput :: "library \<Rightarrow> kwargs \<Rightarrow> exn + MathInput" where
  "validate_MathInput lib kw =
     (case required validate_str kw (lit ''expression'') of
        Inr e \<Rightarrow> Inr \<lparr>expression = e\<rparr>
      | r \<Rightarrow> Inl (ValidationError lib (lit ''MathInput'') (err_of (lit ''expression'') r)))"

text \<open>
  \<open>math_tool\<close> returns what \<open>eval\<close> returns. \<open>except Exception as e\<close> turns an exception
  into a \<open>ValueError\<close> that carries \<open>str(e)\<close>; an exception that \<open>str(e)\<close> raises leaves
  the handler, whatever its class.
\<close>

definition math_tool :: "library \<Rightarrow> MathInput \<Rightarrow> (exn + pyval) option" where
  "math_tool lib input =
     (case py_eval lib (expression input) of
        None \<Rightarrow> None
      | Some (Inr result) \<Rightarrow> Some (Inr result)
      | Some (Inl (Exception c t)) \<Rightarrow>
          (case t of
             None \<Rightarrow> None
           | Some (Inl e') \<Rightarrow> Some (Inl e')
           | Some (Inr m) \<Rightarrow> Some (Inl (ValueError (lit ''Invalid expression: '' @ m))))
      | Some (Inl (BaseException c t)) \<Rightarrow> Some (Inl (BaseException c t)))"

text \<open>\<open>str(v)\<close> of a result.\<close>

definition py_str :: "library \<Rightarrow> pyval \<Rightarrow> (exn + pystr) option" where
  "py_str lib v =
     (case v of
        VInt n \<Rightarrow> if \<bar>n\<bar> < 10 ^ 4299 then Some (Inr (str_int n)) else str_other lib v
      | VFloat x \<Rightarrow> Some (Inr (float_repr lib x))
      | VEmptyTuple \<Rightarrow> Some (Inr (lit ''()''))
      | VObject k \<Rightarrow> str_other lib v)"

section \<open>The unit conversion tool\<close>

record UnitConversionInput =
  "value" :: pyfloat
  from_unit :: pystr
  to_unit :: pystr

definition LengthUnit :: "pystr list" where
  "LengthUnit =
     [lit ''km'', lit ''m'', lit ''cm'', lit ''miles'', lit ''yards'', lit ''feet'',
      lit ''inches'']"

text \<open>
  A field of an enumeration that derives from \<open>str\<close> takes one of its values. A
  \<open>float\<close> field takes a float, an infinity and a NaN included, or what pydantic
  coerces.
\<close>

definition validate_enum :: "pystr list \<Rightarrow> json \<Rightarrow> pystr option" where
  "validate_enum members j =
     (case j of JStr s \<Rightarrow> if s \<in> set members then Some s else None | _ \<Rightarrow> None)"

definition validate_float :: "library \<Rightarrow> json \<Rightarrow> pyfloat option" where
  "validate_float lib j = (case j of JFloat x \<Rightarrow> Some x | _ \<Rightarrow> lax_float lib j)"

definition validate_UnitConversionInput ::
  "library \<Rightarrow> kwargs \<Rightarrow> exn + UnitConversionInput" where
  "validate_UnitConversionInput lib kw =
     (let v = required (validate_float lib) kw (lit ''value'');
          f = required (validate_enum LengthUnit) kw (lit ''from_unit'');
          t = required (validate_enum LengthUnit) kw (lit ''to_unit'')
      in case (v, f, t) of
           (Inr v', Inr f', Inr t') \<Rightarrow> Inr \<lparr>value = v', from_unit = f', to_unit = t'\<rparr>
         | _ \<Rightarrow>
             Inl (ValidationError lib (lit ''UnitConversionInput'')
                    (err_of (lit ''value'') v @ err_of (lit ''from_unit'') f
                     @ err_of (lit ''to_unit'') t)))"

text \<open>
  The conversion factors to meters. \<open>1000\<close> and \<open>1\<close> are integers; the others are float
  literals, each the double nearest to the decimal written.
\<close>

definition conversion_to_m :: "(pystr \<times> number) list" where
  "conversion_to_m =
     [(lit ''km'', PyInt 1000),
      (lit ''m'', PyInt 1),
      (lit ''cm'', PyFloat (round_to_double (1 / 100))),
      (lit ''miles'', PyFloat (round_to_double (160934 / 100))),
      (lit ''yards'', PyFloat (round_to_double (9144 / 10000))),
      (lit ''feet'', PyFloat (round_to_double (3048 / 10000))),
      (lit ''inches'', PyFloat (round_to_double (254 / 10000)))]"

text \<open>The product and the quotient are those of Python's arithmetic.\<close>

definition unit_conversion_tool :: "library \<Rightarrow> UnitConversionInput \<Rightarrow> exn + number" where
  "unit_conversion_tool lib input =
     (case (map_of conversion_to_m (from_unit input),
            map_of conversion_to_m (to_unit input)) of
        (Some from_factor, Some to_factor) \<Rightarrow>
          and_then (binary lib Mul (PyFloat (value input)) from_factor) (\<lambda>value_in_m.
          binary lib Div value_in_m to_factor)
      | _ \<Rightarrow> Inl (ValueError (lit ''Invalid unit specified'')))"

section \<open>The date tool\<close>

subsection \<open>The calendar of \<open>datetime\<close>\<close>

text \<open>
  A date has an ordinal: 1 is 0001-01-01, \<open>MAXORDINAL\<close> is 9999-12-31. \<open>ymd2ord\<close> and
  \<open>ord2ymd\<close> are the conversions of CPython's \<open>datetime\<close>.
\<close>

definition is_leap :: "int \<Rightarrow> bool" where
  "is_leap y = (y mod 4 = 0 \<and> (y mod 100 \<noteq> 0 \<or> y mod 400 = 0))"

definition days_before_year :: "int \<Rightarrow> int" where
  "days_before_year y = (let p = y - 1 in p * 365 + p div 4 - p div 100 + p div 400)"

definition DAYS_IN_MONTH :: "int list" where
  "DAYS_IN_MONTH = [31, 28, 31, 30, 31, 30, 31, 31, 30, 31, 30, 31]"

definition DAYS_BEFORE_MONTH :: "int list" where
  "DAYS_BEFORE_MONTH = [0, 31, 59, 90, 120, 151, 181, 212, 243, 273, 304, 334]"

definition days_in_month :: "int \<Rightarrow> int \<Rightarrow> int" where
  "days_in_month y m = (if m = 2 \<and> is_leap y then 29 else DAYS_IN_MONTH ! nat (m - 1))"

definition days_before_month :: "int \<Rightarrow> int \<Rightarrow> int" where
  "days_before_month y m =
     DAYS_BEFORE_MONTH ! nat (m - 1) + (if 2 < m \<and> is_leap y then 1 else 0)"

definition valid_date :: "date \<Rightarrow> bool" where
  "valid_date d =
     (1 \<le> year d \<and> year d \<le> 9999 \<and> 1 \<le> month d \<and> month d \<le> 12
      \<and> 1 \<le> day d \<and> day d \<le> days_in_month (year d) (month d))"

definition ymd2ord :: "date \<Rightarrow> int" where
  "ymd2ord d = days_before_year (year d) + days_before_month (year d) (month d) + day d"

definition MAXORDINAL :: int where
  "MAXORDINAL = 3652059"

text \<open>
  The month and the day of day \<open>n\<close> of a year, counted from 0: the month is estimated,
  and the estimate is corrected when it is one too large.
\<close>

definition month_day :: "bool \<Rightarrow> int \<Rightarrow> int \<times> int" where
  "month_day leapyear n =
     (let m = (n + 50) div 32;
          preceding = DAYS_BEFORE_MONTH ! nat (m - 1) + (if 2 < m \<and> leapyear then 1 else 0)
      in if n < preceding
         then (m - 1, n - (preceding - (DAYS_IN_MONTH ! nat (m - 2)
                                         + (if m - 1 = 2 \<and> leapyear then 1 else 0))) + 1)
         else (m, n - preceding + 1))"

definition ord2ymd :: "int \<Rightarrow> date" where
  "ord2ymd ordinal =
     (let n = ordinal - 1;
          n400 = n div 146097; n = n mod 146097;
          n100 = n div 36524; n = n mod 36524;
          n4 = n div 1461; n = n mod 1461;
          n1 = n div 365; n = n mod 365;
          y = n400 * 400 + 1 + n100 * 100 + n4 * 4 + n1
      in if n1 = 4 \<or> n100 = 4 then \<lparr>year = y - 1, month = 12, day = 31\<rparr>
         else case month_day (n1 = 3 \<and> (n4 \<noteq> 24 \<or> n100 = 3)) n of
                (m, d) \<Rightarrow> \<lparr>year = y, month = m, day = d\<rparr>)"

text \<open>
  \<open>timedelta(days=n)\<close> takes at most 999999999 days either way. A date plus or minus a
  \<open>timedelta\<close> is the date of the ordinal moved, which has to be that of a date.
\<close>

definition timedelta :: "library \<Rightarrow> int \<Rightarrow> exn + int" where
  "timedelta lib n = (if 999999999 < \<bar>n\<bar> then Inl (OverflowError lib (Days_magnitude n)) else Inr n)"

definition date_add :: "library \<Rightarrow> date \<Rightarrow> int \<Rightarrow> exn + date" where
  "date_add lib d delta =
     (let ordinal = ymd2ord d + delta
      in if 1 \<le> ordinal \<and> ordinal \<le> MAXORDINAL then Inr (ord2ymd ordinal)
         else Inl (OverflowError lib Date_out_of_range))"

definition date_sub :: "library \<Rightarrow> date \<Rightarrow> int \<Rightarrow> exn + date" where
  "date_sub lib d delta = date_add lib d (- delta)"

text \<open>\<open>str(d)\<close> of a date: year, month and day in 4, 2 and 2 digits.\<close>

definition pad :: "nat \<Rightarrow> int \<Rightarrow> pystr" where
  "pad w n = (let ds = digits (nat n) in replicate (w - length ds) 48 @ ds)"

definition isoformat :: "date \<Rightarrow> pystr" where
  "isoformat d = pad 4 (year d) @ lit ''-'' @ pad 2 (month d) @ lit ''-'' @ pad 2 (day d)"

subsection \<open>Validation\<close>

text \<open>
  A \<open>date\<close> field takes the string \<open>YYYY-MM-DD\<close> of a date; an \<open>int\<close> field an integer.
  Anything else is left to pydantic's coercion.
\<close>

definition parse_iso_date :: "pystr \<Rightarrow> date option" where
  "parse_iso_date s =
     (case s of
        [y1, y2, y3, y4, h1, m1, m2, h2, d1, d2] \<Rightarrow>
          (let d = \<lparr>year = literal_value [y1, y2, y3, y4], month = literal_value [m1, m2],
                     day = literal_value [d1, d2]\<rparr>
           in if list_all is_digit [y1, y2, y3, y4, m1, m2, d1, d2] \<and> h1 = 45 \<and> h2 = 45
                 \<and> valid_date d
              then Some d else None)
      | _ \<Rightarrow> None)"

definition validate_date :: "library \<Rightarrow> json \<Rightarrow> date option" where
  "validate_date lib j =
     (case j of
        JStr s \<Rightarrow> (case parse_iso_date s of Some d \<Rightarrow> Some d | None \<Rightarrow> lax_date lib j)
      | _ \<Rightarrow> lax_date lib j)"

definition validate_int :: "library \<Rightarrow> json \<Rightarrow> int option" where
  "validate_int lib j =
     (case j of
        JInt n \<Rightarrow> if - (2 ^ 63) \<le> n \<and> n < 2 ^ 63 then Some n else lax_int lib j
      | _ \<Rightarrow> lax_int lib j)"

record DateInput =
  operation :: pystr
  base_date :: "date option"
  days :: "int option"
  second_date :: "date option"

definition DateOperation :: "pystr list" where
  "DateOperation = [lit ''get_current'', lit ''add_days'', lit ''subtract_days'', lit ''diff_days'']"

definition validate_DateInput :: "library \<Rightarrow> kwargs \<Rightarrow> exn + DateInput" where
  "validate_DateInput lib kw =
     (let p = required (validate_enum DateOperation) kw (lit ''operation'');
          b = optional (\<lambda>j. map_option Some (validate_date lib j)) None kw (lit ''base_date'');
          n = optional (\<lambda>j. map_option Some (validate_int lib j)) None kw (lit ''days'');
          s = optional (\<lambda>j. map_option Some (validate_date lib j)) None kw (lit ''second_date'')
      in case (p, b, n, s) of
           (Inr p', Inr b', Inr n', Inr s') \<Rightarrow>
             Inr \<lparr>operation = p', base_date = b', days = n', second_date = s'\<rparr>
         | _ \<Rightarrow>
             Inl (ValidationError lib (lit ''DateInput'')
                    (err_of (lit ''operation'') p @ err_of (lit ''base_date'') b
                     @ err_of (lit ''days'') n @ err_of (lit ''second_date'') s)))"

subsection \<open>The tool\<close>

definition date_tool :: "library \<Rightarrow> DateInput \<Rightarrow> exn + pystr" where
  "date_tool lib input =
     (if operation input = lit ''get_current'' then Inr (isoformat (today lib))
      else if operation input = lit ''add_days'' then
        (case (base_date input, days input) of
           (Some b, Some n) \<Rightarrow>
             and_then (timedelta lib n) (\<lambda>delta.
             and_then (date_add lib b delta) (\<lambda>new_date. Inr (isoformat new_date)))
         | _ \<Rightarrow> Inl (ValueError (lit ''base_date and days are required for add_days'')))
      else if operation input = lit ''subtract_days'' then
        (case (base_date input, days input) of
           (Some b, Some n) \<Rightarrow>
             and_then (timedelta lib n) (\<lambda>delta.
             and_then (date_sub lib b delta) (\<lambda>new_date. Inr (isoformat new_date)))
         | _ \<Rightarrow> Inl (ValueError (lit ''base_date and days are required for subtract_days'')))
      else if operation input = lit ''diff_days'' then
        (case (base_date input, second_date input) of
           (Some b, Some s) \<Rightarrow> Inr (str_int (ymd2ord s - ymd2ord b))
         | _ \<Rightarrow>
             Inl (ValueError (lit ''base_date and second_date are required for diff_days'')))
      else Inl (ValueError (lit ''Invalid date operation'')))"

section \<open>The dispatcher\<close>

text \<open>
  \<open>Model(**params)\<close> takes its keyword arguments from a mapping: \<open>TypeError\<close> otherwise.
\<close>

definition kwargs_of :: "library \<Rightarrow> pystr \<Rightarrow> json \<Rightarrow> exn + kwargs" where
  "kwargs_of lib model params =
     (case params of
        JObject kvs \<Rightarrow> Inr (map_of kvs)
      | _ \<Rightarrow> Inl (plain (lit ''TypeError'') (describe lib (Not_a_mapping model))))"

text \<open>The body of the \<open>try\<close> statement of \<open>call_tool\<close>.\<close>

definition call_tool_body :: "library \<Rightarrow> pystr \<Rightarrow> json \<Rightarrow> (exn + pystr) option" where
  "call_tool_body lib tool_name params =
     (if tool_name = lit ''math'' then
        and_run (Some (kwargs_of lib (lit ''MathInput'') params)) (\<lambda>kw.
        and_run (Some (validate_MathInput lib kw)) (\<lambda>input_model.
        and_run (math_tool lib input_model) (py_str lib)))
      else if tool_name = lit ''unit_conversion'' then
        and_run (Some (kwargs_of lib (lit ''UnitConversionInput'') params)) (\<lambda>kw.
        and_run (Some (validate_UnitConversionInput lib kw)) (\<lambda>input_model.
        and_run (Some (unit_conversion_tool lib input_model)) (\<lambda>r. py_str lib (of_number r))))
      else if tool_name = lit ''date_tool'' then
        Some (and_then (kwargs_of lib (lit ''DateInput'') params) (\<lambda>kw.
              and_then (validate_DateInput lib kw) (date_tool lib)))
      else if tool_name = lit ''text_analysis'' then
        Some (and_then (kwargs_of lib (lit ''TextAnalysisInput'') params) (\<lambda>kw.
              and_then (validate_TextAnalysisInput lib kw) (\<lambda>input_model.
              Inr (text_analysis_tool lib input_model))))
      else Some (Inl (ValueError (lit ''Unknown tool: '' @ tool_name))))"

text \<open>
  \<open>except Exception as e\<close> returns \<open>"Error: " + str(e)\<close>; an exception that does not
  derive from \<open>Exception\<close> passes to the caller, and so does an exception that \<open>str(e)\<close>
  raises in the handler.
\<close>

definition call_tool :: "library \<Rightarrow> pystr \<Rightarrow> json \<Rightarrow> (exn + pystr) option" where
  "call_tool lib tool_name params =
     (case call_tool_body lib tool_name params of
        None \<Rightarrow> None
      | Some (Inr s) \<Rightarrow> Some (Inr s)
      | Some (Inl (Exception c t)) \<Rightarrow>
          (case t of
             None \<Rightarrow> None
           | Some (Inl e') \<Rightarrow> Some (Inl e')
           | Some (Inr m) \<Rightarrow> Some (Inr (lit ''Error: '' @ m)))
      | Some (Inl (BaseException c t)) \<Rightarrow> Some (Inl (BaseException c t)))"

section \<open>The conversation loop\<close>









section \<open>An instance of the libraries\<close>

text \<open>
  An instance of \<open>library\<close> on which the model is evaluated. Where Python fixes the
  behaviour on the inputs of the examples, the instance follows it: \<open>json.loads\<close>
  decodes \<open>{}\<close> to the empty object and raises on the empty text, \<open>print\<close> prints. The
  other fields are stand-ins: a float is printed as a fraction, and pydantic coerces
  nothing.
\<close>

definition show_failure :: "failure \<Rightarrow> pystr" where
  "show_failure f =
     (case f of
        Validation model errs \<Rightarrow> lit ''validation error for '' @ model
      | Not_a_mapping model \<Rightarrow> lit ''argument after ** must be a mapping''
      | Invalid_syntax s \<Rightarrow> lit ''invalid syntax''
      | Division_by_zero \<Rightarrow> lit ''division by zero''
      | Float_division_by_zero \<Rightarrow> lit ''float division by zero''
      | Int_too_large_for_float \<Rightarrow> lit ''int too large to convert to float''
      | Quotient_too_large_for_float \<Rightarrow> lit ''integer division result too large for a float''
      | Days_magnitude n \<Rightarrow> lit ''days must have magnitude <= 999999999''
      | Date_out_of_range \<Rightarrow> lit ''date value out of range'')"

definition show_float :: "pyfloat \<Rightarrow> pystr" where
  "show_float x =
     (case x of
        Finite q \<Rightarrow> (let (n, d) = quotient_of q in str_int n @ lit ''/'' @ str_int d)
      | Minus_zero \<Rightarrow> lit ''-0.0''
      | Infinity \<Rightarrow> lit ''inf''
      | Minus_infinity \<Rightarrow> lit ''-inf''
      | NaN \<Rightarrow> lit ''nan'')"

definition cpython :: library where
  "cpython =
     \<lparr>eval_other = (\<lambda>s. Some (Inl (plain (lit ''NameError'') (lit ''not evaluated'')))),
      eval_limit = (\<lambda>s. None),
      str_other = (\<lambda>v. Some (Inr (lit ''<object>''))),
      float_repr = show_float,
      lax_float = (\<lambda>j. None),
      lax_int = (\<lambda>j. None),
      lax_bool = (\<lambda>j. None),
      lax_date = (\<lambda>j. None),
      unicode_lower = (\<lambda>s. s),
      describe = show_failure,
      today = \<lparr>year = 2023, month = 1, day = 1\<rparr>,
      json_loads =
        (\<lambda>s. if s = lit ''{}'' then Inr (JObject [])
             else Inl (plain (lit ''JSONDecodeError'') (lit ''Expecting value''))),
      print_raises = (\<lambda>p. None)\<rparr>"

section \<open>Notions of the specification\<close>




text \<open>
  An outcome without an exception, or with a plain one. The tools other than the math
  tool, and the validation of the arguments, have such outcomes only.
\<close>

definition plainly :: "exn + 'a \<Rightarrow> bool" where
  "plainly r = (case r of Inl e \<Rightarrow> (\<exists>c m. e = plain c m) | Inr x \<Rightarrow> True)"






text \<open>
  \<open>month_day\<close> gives a month and a day of that month, the day \<open>n\<close> of the year.
\<close>

definition month_day_ok :: "bool \<Rightarrow> int \<Rightarrow> bool" where
  "month_day_ok leapyear n =
     (case month_day leapyear n of
        (m, d) \<Rightarrow>
          1 \<le> m \<and> m \<le> 12 \<and> 1 \<le> d
          \<and> d \<le> (if m = 2 \<and> leapyear then 29 else DAYS_IN_MONTH ! nat (m - 1))
          \<and> DAYS_BEFORE_MONTH ! nat (m - 1) + (if 2 < m \<and> leapyear then 1 else 0) + d = n + 1)"

text \<open>The order of the calendar.\<close>

definition before :: "date \<Rightarrow> date \<Rightarrow> bool" where
  "before d d' =
     (year d < year d'
      \<or> (year d = year d'
          \<and> (month d < month d' \<or> (month d = month d' \<and> day d < day d'))))"

text \<open>
  The days before a month are not negative; with the days of the month they are not
  more than the days of the year, and not more than the days before a later month.
\<close>

definition months_ok :: "bool \<Rightarrow> bool" where
  "months_ok leap =
     list_all (\<lambda>m.
        0 \<le> DAYS_BEFORE_MONTH ! nat (m - 1)
        \<and> DAYS_BEFORE_MONTH ! nat (m - 1) + (if 2 < m \<and> leap then 1 else 0)
            + (if m = 2 \<and> leap then 29 else DAYS_IN_MONTH ! nat (m - 1))
          \<le> 365 + (if leap then 1 else 0)
        \<and> list_all (\<lambda>m'. m < m' \<longrightarrow>
              DAYS_BEFORE_MONTH ! nat (m - 1) + (if 2 < m \<and> leap then 1 else 0)
              + (if m = 2 \<and> leap then 29 else DAYS_IN_MONTH ! nat (m - 1))
              \<le> DAYS_BEFORE_MONTH ! nat (m' - 1) + (if 2 < m' \<and> leap then 1 else 0))
            [1..12])
       [1..12]"

section \<open>Properties of the text analysis tool\<close>

lemma sublist_Cons_iff: "sublist sub (c # xs) \<longleftrightarrow> prefix sub (c # xs) \<or> sublist sub xs"
  by (metis sublist_Cons_right)

lemma occurrences_Cons:
  assumes "nonoverlapping_occurrences sub cs n" and "\<not> prefix sub (c # cs)"
  shows "nonoverlapping_occurrences sub (c # cs) n"
  using assms
proof (cases rule: nonoverlapping_occurrences.cases)
  case none
  then show ?thesis using assms(2) by (auto simp: sublist_Cons_iff intro: nonoverlapping_occurrences.none)
next
  case (found u rest m)
  have "\<not> prefix sub (c # u @ butlast sub)"
  proof
    assume "prefix sub (c # u @ butlast sub)"
    moreover have "prefix (c # u @ butlast sub) (c # cs)"
      unfolding found(2) by (cases sub rule: rev_cases) auto
    ultimately show False using assms(2) by (meson prefix_order.trans)
  qed
  then have "\<not> sublist sub ((c # u) @ butlast sub)"
    using found(3) by (simp add: sublist_Cons_iff)
  moreover have "c # cs = (c # u) @ sub @ rest" using found(2) by simp
  ultimately show ?thesis using found(1,4) nonoverlapping_occurrences.found by blast
qed

lemma count_from_occurrences:
  "sub \<noteq> [] \<Longrightarrow> nonoverlapping_occurrences sub s (count_from sub s)"
proof (induction sub s rule: count_from.induct)
  case (1 sub)
  then show ?case by (auto intro: nonoverlapping_occurrences.none)
next
  case (2 sub c cs)
  show ?case
  proof (cases "prefix sub (c # cs)")
    case True
    then obtain rest where r: "c # cs = sub @ rest" by (auto simp: prefix_def)
    have d: "drop (length sub - 1) cs = rest"
      using r 2(3) by (cases sub) auto
    have "\<not> sublist sub ([] @ butlast sub)"
    proof
      assume "sublist sub ([] @ butlast sub)"
      then have "sublist sub (butlast sub)" by simp
      then have "length sub \<le> length (butlast sub)" by (rule sublist_length_le)
      moreover have "length (butlast sub) < length sub"
        using 2(3) by (cases sub rule: rev_cases) auto
      ultimately show False by linarith
    qed
    moreover have "nonoverlapping_occurrences sub rest (count_from sub rest)"
      using 2(1)[OF True 2(3)] d by simp
    ultimately have "nonoverlapping_occurrences sub (c # cs) (Suc (count_from sub rest))"
      using r nonoverlapping_occurrences.found[of "c # cs" "[]" sub rest] by simp
    then show ?thesis using True d by simp
  next
    case False
    then show ?thesis using 2(2)[OF False 2(3)] occurrences_Cons by simp
  qed
qed

lemma count_from_single: "count_from [c] s = count_list s c"
  by (induction s) auto

lemma py_lower_Nil: "py_lower lib [] = []"
  by (simp add: py_lower_def)

lemma length_lower_ascii:
  "list_all (\<lambda>c. c < 128) s \<Longrightarrow> length (concat (map lower_cp s)) = length s"
  by (induction s) (auto simp: lower_cp_def)

lemma py_lower_ascii:
  assumes "list_all (\<lambda>c. c < 128) s"
  shows "length (py_lower lib s) = length s"
proof -
  have "list_all (\<lambda>c. c < 128 \<or> c = 304) s"
    using assms by (induction s) auto
  then show ?thesis
    using assms by (simp add: py_lower_def length_lower_ascii)
qed

lemmas text_analysis_call =
  call_tool_def call_tool_body_def kwargs_of_def and_then_def and_run_def
  validate_TextAnalysisInput_def
  required_def optional_def validate_str_def validate_bool_def text_analysis_tool_def
  py_lower_def lower_cp_def py_count_def str_int_def

lemma count_r_in_strawberry:
  "call_tool lib (lit ''text_analysis'')
     (JObject [(lit ''text'', JStr (lit ''strawberry'')), (lit ''character'', JStr (lit ''r''))])
   = Some (Inr (lit ''The character '' @ apostrophe @ lit ''r'' @ apostrophe
          @ lit '' appears 3 times in '' @ apostrophe @ lit ''strawberry'' @ apostrophe))"
  by (simp add: text_analysis_call)

lemma count_S_in_Strawberry:
  "call_tool lib (lit ''text_analysis'')
     (JObject [(lit ''text'', JStr (lit ''Strawberry'')), (lit ''character'', JStr (lit ''S'')),
               (lit ''case_sensitive'', JBool True)])
   = Some (Inr (lit ''The character '' @ apostrophe @ lit ''S'' @ apostrophe
          @ lit '' appears 1 times in '' @ apostrophe @ lit ''Strawberry'' @ apostrophe))"
  by (simp add: text_analysis_call)

text \<open>
  C8. \<open>text_analysis_tool\<close> returns the sentence that names the character and the text
  as given, with the count of the character in the text, both lowercased first unless
  \<open>case_sensitive\<close>. The count is that of the non-overlapping occurrences, found from the
  left; for a single character it is the number of positions that hold it. A call
  without \<open>case_sensitive\<close> is validated with \<open>case_sensitive = False\<close>. Through the
  dispatcher, \<open>r\<close> is counted 3 times in \<open>strawberry\<close> by default, and \<open>S\<close> once in
  \<open>Strawberry\<close> when \<open>case_sensitive\<close> is true.
\<close>

theorem text_analysis_counts:
  "(let searched = (\<lambda>s. if case_sensitive input then s else py_lower lib s);
        count = py_count (searched (text input)) (searched (character input))
    in text_analysis_tool lib input =
         lit ''The character '' @ apostrophe @ character input @ apostrophe
         @ lit '' appears '' @ str_int (int count) @ lit '' times in ''
         @ apostrophe @ text input @ apostrophe
       \<and> (searched (character input) \<noteq> [] \<longrightarrow>
            nonoverlapping_occurrences (searched (character input)) (searched (text input)) count)
       \<and> (\<forall>c. searched (character input) = [c] \<longrightarrow> count = count_list (searched (text input)) c))
   \<and> (kw (lit ''text'') = Some (JStr t) \<and> kw (lit ''character'') = Some (JStr c)
        \<and> kw (lit ''case_sensitive'') = None \<longrightarrow>
      validate_TextAnalysisInput lib kw = Inr \<lparr>text = t, character = c, case_sensitive = False\<rparr>)
   \<and> call_tool lib (lit ''text_analysis'')
        (JObject [(lit ''text'', JStr (lit ''strawberry'')), (lit ''character'', JStr (lit ''r''))])
      = Some (Inr (lit ''The character '' @ apostrophe @ lit ''r'' @ apostrophe
             @ lit '' appears 3 times in '' @ apostrophe @ lit ''strawberry'' @ apostrophe))
   \<and> call_tool lib (lit ''text_analysis'')
        (JObject [(lit ''text'', JStr (lit ''Strawberry'')), (lit ''character'', JStr (lit ''S'')),
                  (lit ''case_sensitive'', JBool True)])
      = Some (Inr (lit ''The character '' @ apostrophe @ lit ''S'' @ apostrophe
             @ lit '' appears 1 times in '' @ apostrophe @ lit ''Strawberry'' @ apostrophe))"
proof -
  have "sub \<noteq> [] \<Longrightarrow> nonoverlapping_occurrences sub s (py_count s sub)" for sub s
    by (simp add: py_count_def count_from_occurrences)
  moreover have "py_count s [x] = count_list s x" for s x
    by (simp add: py_count_def count_from_single)
  moreover have "kw (lit ''text'') = Some (JStr t) \<and> kw (lit ''character'') = Some (JStr c)
        \<and> kw (lit ''case_sensitive'') = None \<longrightarrow>
      validate_TextAnalysisInput lib kw = Inr \<lparr>text = t, character = c, case_sensitive = False\<rparr>"
    by (simp add: validate_TextAnalysisInput_def required_def optional_def validate_str_def)
  ultimately show ?thesis
    using count_r_in_strawberry [of lib] count_S_in_Strawberry [of lib]
    by (simp add: text_analysis_tool_def Let_def)
qed

theorem text_analysis_counts_witness:
  "text_analysis_tool cpython \<lparr>text = lit ''Banana'', character = lit ''AN'', case_sensitive = False\<rparr>
     = lit ''The character '' @ apostrophe @ lit ''AN'' @ apostrophe
       @ lit '' appears 2 times in '' @ apostrophe @ lit ''Banana'' @ apostrophe
   \<and> nonoverlapping_occurrences (lit ''an'') (lit ''banana'') (Suc (Suc 0))
   \<and> validate_TextAnalysisInput cpython
       (map_of [(lit ''text'', JStr (lit ''Banana'')), (lit ''character'', JStr (lit ''AN''))])
     = Inr \<lparr>text = lit ''Banana'', character = lit ''AN'', case_sensitive = False\<rparr>"
  using text_analysis_counts [of "\<lparr>text = lit ''Banana'', character = lit ''AN'', case_sensitive = False\<rparr>"
      cpython "map_of [(lit ''text'', JStr (lit ''Banana'')), (lit ''character'', JStr (lit ''AN''))]"
      "lit ''Banana''" "lit ''AN''"]
  by (simp add: py_lower_def lower_cp_def py_count_def str_int_def Let_def)

text \<open>
  C10 as stated fails: the text is lowercased before the count unless \<open>case_sensitive\<close>,
  and the lowercase of U+0130 has two code points. The text of that one code point is
  reported to hold the empty string 3 times, not 2.
\<close>

theorem empty_character_counterexample:
  "text_analysis_tool cpython \<lparr>text = [304], character = [], case_sensitive = False\<rparr>
     = lit ''The character '' @ apostrophe @ apostrophe
       @ lit '' appears 3 times in '' @ apostrophe @ [304] @ apostrophe
   \<and> int (length [304 :: nat]) + 1 \<noteq> 3"
  by (simp add: text_analysis_tool_def py_lower_def lower_cp_def py_count_def str_int_def)

text \<open>
  C10, amended. The empty character passes validation, and the count reported is the
  length of the text as searched plus one: of the text as given when \<open>case_sensitive\<close>,
  of its lowercase otherwise. That is the length of the text plus one when
  \<open>case_sensitive\<close> is true or the text is ASCII.
\<close>

theorem empty_character_count:
  "validate_str (JStr []) = Some []
   \<and> (kw (lit ''text'') = Some (JStr t) \<and> kw (lit ''character'') = Some (JStr [])
        \<and> kw (lit ''case_sensitive'') = None \<longrightarrow>
      validate_TextAnalysisInput lib kw = Inr \<lparr>text = t, character = [], case_sensitive = False\<rparr>)
   \<and> text_analysis_tool lib \<lparr>text = t, character = [], case_sensitive = b\<rparr>
      = lit ''The character '' @ apostrophe @ apostrophe @ lit '' appears ''
        @ str_int (int (length (if b then t else py_lower lib t)) + 1) @ lit '' times in ''
        @ apostrophe @ t @ apostrophe
   \<and> (b \<or> list_all (\<lambda>c. c < 128) t \<longrightarrow>
        length (if b then t else py_lower lib t) = length t)"
  by (simp add: validate_TextAnalysisInput_def required_def optional_def validate_str_def
      text_analysis_tool_def py_lower_Nil py_count_def py_lower_ascii add.commute)

theorem empty_character_count_witness:
  "validate_TextAnalysisInput cpython
       (map_of [(lit ''text'', JStr (lit ''Abc'')), (lit ''character'', JStr [])])
     = Inr \<lparr>text = lit ''Abc'', character = [], case_sensitive = False\<rparr>
   \<and> text_analysis_tool cpython \<lparr>text = lit ''Abc'', character = [], case_sensitive = False\<rparr>
      = lit ''The character '' @ apostrophe @ apostrophe @ lit '' appears 4 times in ''
        @ apostrophe @ lit ''Abc'' @ apostrophe"
  using empty_character_count
    [of "map_of [(lit ''text'', JStr (lit ''Abc'')), (lit ''character'', JStr [])]" "lit ''Abc''"
        cpython False]
  by (simp add: py_lower_def lower_cp_def str_int_def)

section \<open>Properties of the dispatcher\<close>

text \<open>
  C3. For a tool name that is none of the four registered names, and any arguments,
  \<open>call_tool\<close> returns a string and raises nothing: the error string of the message
  \<open>Unknown tool: {name}\<close>, which the dispatcher returns behind its prefix \<open>Error: \<close>.
\<close>

theorem call_tool_unknown:
  assumes "tool_name \<noteq> lit ''math''" and "tool_name \<noteq> lit ''unit_conversion''"
    and "tool_name \<noteq> lit ''date_tool''" and "tool_name \<noteq> lit ''text_analysis''"
  shows "call_tool lib tool_name params
           = Some (Inr (lit ''Error: '' @ lit ''Unknown tool: '' @ tool_name))"
  using assms by (simp add: call_tool_def call_tool_body_def ValueError_def plain_def)

theorem call_tool_unknown_witness:
  "call_tool cpython (lit ''nope'') JNull = Some (Inr (lit ''Error: Unknown tool: nope''))"
  using call_tool_unknown [of "lit ''nope''" cpython JNull] by simp

section \<open>Properties of the math tool\<close>

text \<open>
  Claim C2. The expression \<open>()\<close> evaluates to the empty tuple, which is no number;
  \<open>math_tool\<close> returns it and does not fail, and \<open>call_tool\<close> returns its text.
\<close>

theorem math_tool_returns_non_numeric:
  "math_tool lib \<lparr>expression = lit ''()''\<rparr> = Some (Inr VEmptyTuple)
   \<and> \<not> is_numeric VEmptyTuple
   \<and> call_tool lib (lit ''math'') (JObject [(lit ''expression'', JStr (lit ''()''))])
       = Some (Inr (lit ''()''))"
  by (simp add: call_tool_def call_tool_body_def kwargs_of_def validate_MathInput_def
      required_def validate_str_def and_then_def and_run_def math_tool_def py_eval_def
      calls_exit_def
      py_str_def is_digit_def)

section \<open>Properties of the date tool\<close>

lemma ordinal_2023: "ymd2ord \<lparr>year = 2023, month = 1, day = 1\<rparr> = 738521"
  by code_simp

lemma iso_2023_01_06: "isoformat (ord2ymd 738526) = lit ''2023-01-06''"
  by code_simp

lemma and_then_Inr: "and_then (Inr x) f = f x"
  by (simp add: and_then_def)

lemma and_then_Inl: "and_then (Inl e) f = Inl e"
  by (simp add: and_then_def)

text \<open>
  Claim C7, as stated, fails: with \<open>add_days\<close>, a base date and a number of days, and so
  with no required field absent, the tool still fails when the new date lies after
  9999-12-31.
\<close>

theorem date_tool_overflow_counterexample:
  "date_tool cpython
     \<lparr>operation = lit ''add_days'', base_date = Some \<lparr>year = 9999, month = 12, day = 31\<rparr>,
      days = Some 1, second_date = None\<rparr>
   = Inl (Exception (lit ''OverflowError'') (Some (Inr (lit ''date value out of range''))))"
  by code_simp

text \<open>
  Claim C7, amended. \<open>get_current\<close> succeeds. \<open>add_days\<close> and \<open>subtract_days\<close> fail,
  naming \<open>base_date\<close> and \<open>days\<close>, when one of the two is absent; with both, they fail
  with an \<open>OverflowError\<close> when the number of days exceeds 999999999 in magnitude or the
  new date lies outside 0001-01-01 .. 9999-12-31, and succeed otherwise. \<open>diff_days\<close>
  fails, naming \<open>base_date\<close> and \<open>second_date\<close>, when one of the two is absent, and
  succeeds otherwise. Any other operation fails with \<open>Invalid date operation\<close>.
\<close>

theorem date_tool_outcomes:
  "(operation input = lit ''get_current'' \<longrightarrow>
      date_tool lib input = Inr (isoformat (today lib)))
   \<and> (operation input = lit ''add_days'' \<longrightarrow>
        (case (base_date input, days input) of
           (Some b, Some n) \<Rightarrow>
             if \<bar>n\<bar> \<le> 999999999 \<and> 1 \<le> ymd2ord b + n \<and> ymd2ord b + n \<le> MAXORDINAL
             then date_tool lib input = Inr (isoformat (ord2ymd (ymd2ord b + n)))
             else \<exists>f. date_tool lib input = Inl (OverflowError lib f)
         | _ \<Rightarrow> date_tool lib input
                = Inl (ValueError (lit ''base_date and days are required for add_days''))))
   \<and> (operation input = lit ''subtract_days'' \<longrightarrow>
        (case (base_date input, days input) of
           (Some b, Some n) \<Rightarrow>
             if \<bar>n\<bar> \<le> 999999999 \<and> 1 \<le> ymd2ord b - n \<and> ymd2ord b - n \<le> MAXORDINAL
             then date_tool lib input = Inr (isoformat (ord2ymd (ymd2ord b - n)))
             else \<exists>f. date_tool lib input = Inl (OverflowError lib f)
         | _ \<Rightarrow> date_tool lib input
                = Inl (ValueError (lit ''base_date and days are required for subtract_days''))))
   \<and> (operation input = lit ''diff_days'' \<longrightarrow>
        (case (base_date input, second_date input) of
           (Some b, Some s) \<Rightarrow> date_tool lib input = Inr (str_int (ymd2ord s - ymd2ord b))
         | _ \<Rightarrow> date_tool lib input
                = Inl (ValueError (lit ''base_date and second_date are required for diff_days''))))
   \<and> (operation input \<notin> set DateOperation \<longrightarrow>
        date_tool lib input = Inl (ValueError (lit ''Invalid date operation'')))"
  by (auto simp: date_tool_def DateOperation_def timedelta_def date_add_def date_sub_def
      and_then_def Let_def split: option.splits)

theorem date_tool_outcomes_witness:
  "date_tool cpython
     \<lparr>operation = lit ''add_days'', base_date = Some \<lparr>year = 2023, month = 1, day = 1\<rparr>,
      days = Some 5, second_date = None\<rparr> = Inr (lit ''2023-01-06'')"
  using date_tool_outcomes [of "\<lparr>operation = lit ''add_days'',
      base_date = Some \<lparr>year = 2023, month = 1, day = 1\<rparr>,
      days = Some 5, second_date = None\<rparr>" cpython] ordinal_2023 iso_2023_01_06
  by (simp add: MAXORDINAL_def)

section \<open>Exceptions at the dispatcher\<close>


lemma plainly_Inr [simp]: "plainly (Inr x)"
  by (simp add: plainly_def)

lemma plainly_Inl [simp]: "plainly (Inl e) \<longleftrightarrow> (\<exists>c m. e = plain c m)"
  by (simp add: plainly_def)

lemma plain_is_plain [simp]: "\<exists>c' m'. plain c m = plain c' m'"
  by blast

























section \<open>Properties of the conversation loop\<close>














section \<open>The calendar\<close>

lemma month_day_common: "list_all (month_day_ok False) [0..364]"
  by code_simp

lemma month_day_leap: "list_all (month_day_ok True) [0..364]"
  by code_simp

lemma month_day_valid:
  assumes "0 \<le> n" and "n \<le> 364"
  shows "month_day_ok leap n"
proof -
  from assms have "n \<in> set [0..364]" by simp
  with month_day_common month_day_leap have "month_day_ok False n" "month_day_ok True n"
    by (auto simp: list_all_iff)
  then show ?thesis by (cases leap) simp_all
qed

lemma year_start:
  fixes a b c d :: int
  assumes "0 \<le> a" "0 \<le> b" "b \<le> 3" "0 \<le> c" "c \<le> 24" "0 \<le> d" "d \<le> 3"
  shows "days_before_year (400 * a + 100 * b + 4 * c + d + 1)
           = 146097 * a + 36524 * b + 1461 * c + 365 * d"
proof -
  let ?p = "400 * a + 100 * b + 4 * c + d"
  have d4: "?p div 4 = 100 * a + 25 * b + c"
    by (rule int_div_pos_eq [where r = d]) (use assms in simp_all)
  have d100: "?p div 100 = 4 * a + b"
    by (rule int_div_pos_eq [where r = "4 * c + d"]) (use assms in simp_all)
  have d400: "?p div 400 = a"
    by (rule int_div_pos_eq [where r = "100 * b + 4 * c + d"]) (use assms in simp_all)
  show "days_before_year (?p + 1) = 146097 * a + 36524 * b + 1461 * c + 365 * d"
    by (simp add: days_before_year_def Let_def d4 d100 d400)
qed

lemma year_leap:
  fixes a b c d :: int
  assumes "0 \<le> a" "0 \<le> b" "b \<le> 3" "0 \<le> c" "c \<le> 24" "0 \<le> d" "d \<le> 3"
  shows "is_leap (400 * a + 100 * b + 4 * c + d + 1) \<longleftrightarrow> d = 3 \<and> (c \<noteq> 24 \<or> b = 3)"
proof -
  let ?y = "400 * a + 100 * b + 4 * c + d + 1"
  have "?y = 4 * (100 * a + 25 * b + c) + (d + 1)" by simp
  then have m4: "?y mod 4 = (d + 1) mod 4"
    by (simp only: mod_mult_self4)
  have "?y = 100 * (4 * a + b) + (4 * c + d + 1)" by simp
  then have m100: "?y mod 100 = (4 * c + d + 1) mod 100"
    by (simp only: mod_mult_self4)
  have "?y = 400 * a + (100 * b + 4 * c + d + 1)" by simp
  then have m400: "?y mod 400 = (100 * b + 4 * c + d + 1) mod 400"
    by (simp only: mod_mult_self4)
  have z4: "(z + 1) mod 4 = 0 \<longleftrightarrow> z = 3" if "0 \<le> z" "z \<le> 3" for z :: int
    using that by presburger
  have z100: "(z + 1) mod 100 = 0 \<longleftrightarrow> z = 99" if "0 \<le> z" "z \<le> 99" for z :: int
    using that by presburger
  have z400: "(z + 1) mod 400 = 0 \<longleftrightarrow> z = 399" if "0 \<le> z" "z \<le> 399" for z :: int
    using that by presburger
  have 1: "(d + 1) mod 4 = 0 \<longleftrightarrow> d = 3" using assms by (intro z4) simp_all
  have 2: "(4 * c + d + 1) mod 100 = 0 \<longleftrightarrow> 4 * c + d = 99"
    using z100 [of "4 * c + d"] assms by simp
  have 3: "(100 * b + 4 * c + d + 1) mod 400 = 0 \<longleftrightarrow> 100 * b + 4 * c + d = 399"
    using z400 [of "100 * b + 4 * c + d"] assms by simp
  have 4: "4 * c + d = 99 \<longleftrightarrow> c = 24 \<and> d = 3" using assms by linarith
  have 5: "100 * b + 4 * c + d = 399 \<longleftrightarrow> b = 3 \<and> c = 24 \<and> d = 3" using assms by linarith
  show ?thesis
    unfolding is_leap_def m4 m100 m400 1 2 3 4 5 by blast
qed


lemma ord2ymd_inverse:
  assumes "1 \<le> k" and "k \<le> MAXORDINAL"
  shows "valid_date (ord2ymd k) \<and> ymd2ord (ord2ymd k) = k"
proof -
  define n0 where "n0 = k - 1"
  define a where "a = n0 div 146097"
  define r400 where "r400 = n0 mod 146097"
  define b where "b = r400 div 36524"
  define r100 where "r100 = r400 mod 36524"
  define c where "c = r100 div 1461"
  define r4 where "r4 = r100 mod 1461"
  define d where "d = r4 div 365"
  define r where "r = r4 mod 365"
  have n0: "0 \<le> n0" "n0 \<le> 3652058"
    using assms by (simp_all add: n0_def MAXORDINAL_def)
  have e400: "n0 = 146097 * a + r400" and l400: "0 \<le> r400" "r400 < 146097"
    by (simp_all add: a_def r400_def)
  have e100: "r400 = 36524 * b + r100" and l100: "0 \<le> r100" "r100 < 36524"
    by (simp_all add: b_def r100_def)
  have e4: "r100 = 1461 * c + r4" and l4: "0 \<le> r4" "r4 < 1461"
    by (simp_all add: c_def r4_def)
  have e1: "r4 = 365 * d + r" and l1: "0 \<le> r" "r < 365"
    by (simp_all add: d_def r_def)
  have a: "0 \<le> a" "a \<le> 24"
    using n0 e400 l400 by linarith+
  have b: "0 \<le> b" "b \<le> 4"
    using e100 l100 l400 by linarith+
  have c: "0 \<le> c" "c \<le> 24"
    using e4 l4 l100 by linarith+
  have d: "0 \<le> d" "d \<le> 4"
    using e1 l1 l4 by linarith+
  have unfolded: "ord2ymd k =
      (if d = 4 \<or> b = 4
       then \<lparr>year = a * 400 + 1 + b * 100 + c * 4 + d - 1, month = 12, day = 31\<rparr>
       else case month_day (d = 3 \<and> (c \<noteq> 24 \<or> b = 3)) r of
              (m, dd) \<Rightarrow> \<lparr>year = a * 400 + 1 + b * 100 + c * 4 + d, month = m, day = dd\<rparr>)"
    unfolding ord2ymd_def Let_def r_def d_def r4_def c_def r100_def b_def r400_def a_def n0_def
    by (rule refl)
  show ?thesis
  proof (cases "b = 4")
    case True
    with e100 l100 l400 have "r100 = 0" by linarith
    with e4 l4 c have "c = 0" "r4 = 0" by linarith+
    with e1 l1 d have "d = 0" "r = 0" by linarith+
    from True e400 e100 \<open>r100 = 0\<close> n0 a have a23: "a \<le> 23" by linarith
    define Y where "Y = 400 * a + 400"
    have y: "ord2ymd k = \<lparr>year = Y, month = 12, day = 31\<rparr>"
      using True \<open>c = 0\<close> \<open>d = 0\<close> by (simp add: unfolded Y_def)
    have Y: "Y = 400 * a + 100 * 3 + 4 * 24 + 3 + 1" by (simp add: Y_def)
    have dby: "days_before_year Y = 146097 * a + 36524 * 3 + 1461 * 24 + 365 * 3"
      and leap: "is_leap Y"
      unfolding Y using year_start [of a 3 24 3] year_leap [of a 3 24 3] a by simp_all
    have "k = 146097 * a + 146097"
      using e400 e100 True \<open>r100 = 0\<close> by (simp add: n0_def)
    moreover have "1 \<le> Y" "Y \<le> 9999" using a a23 by (simp_all add: Y_def)
    ultimately show ?thesis
      unfolding y using dby leap
      by (simp add: valid_date_def ymd2ord_def days_in_month_def days_before_month_def
          DAYS_IN_MONTH_def DAYS_BEFORE_MONTH_def)
  next
    case b4: False
    with b have b3: "b \<le> 3" by simp
    show ?thesis
    proof (cases "d = 4")
      case True
      with e1 l1 l4 have "r = 0" by linarith
      from True e4 e1 l100 \<open>r = 0\<close> c have c23: "c \<le> 23" by linarith
      define Y where "Y = 400 * a + 100 * b + 4 * c + 4"
      have y: "ord2ymd k = \<lparr>year = Y, month = 12, day = 31\<rparr>"
        using True by (simp add: unfolded Y_def)
      have Y: "Y = 400 * a + 100 * b + 4 * c + 3 + 1" by (simp add: Y_def)
      have dby: "days_before_year Y = 146097 * a + 36524 * b + 1461 * c + 365 * 3"
        and leap: "is_leap Y"
        unfolding Y using year_start [of a b c 3] year_leap [of a b c 3] a b b3 c c23
        by simp_all
      have "k = 146097 * a + 36524 * b + 1461 * c + 1461"
        using e400 e100 e4 e1 True \<open>r = 0\<close> by (simp add: n0_def)
      moreover have "1 \<le> Y" "Y \<le> 9999" using a b b3 c c23 by (simp_all add: Y_def)
      ultimately show ?thesis
        unfolding y using dby leap
        by (simp add: valid_date_def ymd2ord_def days_in_month_def days_before_month_def
            DAYS_IN_MONTH_def DAYS_BEFORE_MONTH_def)
    next
      case d4: False
      with d have d3: "d \<le> 3" by simp
      let ?leap = "d = 3 \<and> (c \<noteq> 24 \<or> b = 3)"
      define Y where "Y = 400 * a + 100 * b + 4 * c + d + 1"
      obtain m dd where md: "month_day ?leap r = (m, dd)" by (cases "month_day ?leap r")
      have y: "ord2ymd k = \<lparr>year = Y, month = m, day = dd\<rparr>"
        using b4 d4 md by (simp add: unfolded Y_def)
      have dby: "days_before_year Y = 146097 * a + 36524 * b + 1461 * c + 365 * d"
        and leap: "is_leap Y \<longleftrightarrow> ?leap"
        unfolding Y_def using year_start [of a b c d] year_leap [of a b c d] a b b3 c d d3
        by simp_all
      from month_day_valid [of r ?leap] l1 md
      have ok: "1 \<le> m" "m \<le> 12" "1 \<le> dd"
        "dd \<le> (if m = 2 \<and> ?leap then 29 else DAYS_IN_MONTH ! nat (m - 1))"
        "DAYS_BEFORE_MONTH ! nat (m - 1) + (if 2 < m \<and> ?leap then 1 else 0) + dd = r + 1"
        by (simp_all add: month_day_ok_def)
      have k: "k = 146097 * a + 36524 * b + 1461 * c + 365 * d + r + 1"
        using e400 e100 e4 e1 by (simp add: n0_def)
      have "Y \<le> 9999"
      proof (rule ccontr)
        assume "\<not> Y \<le> 9999"
        with a b3 c d3 b d have "a = 24" "b = 3" "c = 24" "d = 3"
          unfolding Y_def by linarith+
        with k l1 assms(2) show False by (simp add: MAXORDINAL_def)
      qed
      moreover have "1 \<le> Y" unfolding Y_def using a b c d by linarith
      ultimately have "valid_date (ord2ymd k)"
        unfolding y using ok(1-4) leap by (simp add: valid_date_def days_in_month_def)
      moreover have "ymd2ord (ord2ymd k) = k"
        unfolding y using ok(5) leap dby k by (simp add: ymd2ord_def days_before_month_def)
      ultimately show ?thesis ..
    qed
  qed
qed


lemma digits_small: "n < 10 \<Longrightarrow> digits n = [48 + n]"
  by (subst digits.simps) simp

lemma digits_step: "10 \<le> n \<Longrightarrow> digits n = digits (n div 10) @ [48 + n mod 10]"
  by (subst digits.simps) simp

lemma replicate_small:
  "replicate (Suc 0) x = [x]" "replicate 2 x = [x, x]" "replicate 3 x = [x, x, x]"
  by (simp_all add: numeral_2_eq_2 numeral_3_eq_3)

lemma digits2:
  assumes "10 \<le> n" and "n < 100"
  shows "digits n = [48 + n div 10, 48 + n mod 10]"
proof -
  from assms have "n div 10 < 10" by simp
  with assms show ?thesis by (simp add: digits_step digits_small del: digits.simps)
qed

lemma digits3:
  assumes "100 \<le> n" and "n < 1000"
  shows "digits n = [48 + n div 100, 48 + n div 10 mod 10, 48 + n mod 10]"
proof -
  from assms have "10 \<le> n div 10" "n div 10 < 100" by simp_all
  from digits2 [OF this] assms show ?thesis
    by (simp add: digits_step div_mult2_eq [symmetric] del: digits.simps)
qed

lemma digits4:
  assumes "1000 \<le> n" and "n < 10000"
  shows "digits n = [48 + n div 1000, 48 + n div 100 mod 10, 48 + n div 10 mod 10, 48 + n mod 10]"
proof -
  from assms have "100 \<le> n div 10" "n div 10 < 1000" by simp_all
  from digits3 [OF this] assms show ?thesis
    by (simp add: digits_step div_mult2_eq [symmetric] del: digits.simps)
qed

lemma pad2:
  assumes "n < 100"
  shows "pad 2 (int n) = [48 + n div 10, 48 + n mod 10]"
proof (cases "n < 10")
  case True
  then show ?thesis by (simp add: pad_def digits_small replicate_small del: digits.simps)
next
  case False
  with assms show ?thesis by (simp add: pad_def digits2 del: digits.simps)
qed

lemma pad4:
  assumes "n < 10000"
  shows "pad 4 (int n) = [48 + n div 1000, 48 + n div 100 mod 10, 48 + n div 10 mod 10, 48 + n mod 10]"
proof -
  consider "n < 10" | "10 \<le> n" "n < 100" | "100 \<le> n" "n < 1000" | "1000 \<le> n"
    by linarith
  then show ?thesis
  proof cases
    case 1
    then show ?thesis by (simp add: pad_def digits_small replicate_small del: digits.simps)
  next
    case 2
    then show ?thesis by (simp add: pad_def digits2 replicate_small del: digits.simps)
  next
    case 3
    then show ?thesis by (simp add: pad_def digits3 replicate_small del: digits.simps)
  next
    case 4
    with assms show ?thesis by (simp add: pad_def digits4 del: digits.simps)
  qed
qed

lemma literal_value2:
  "literal_value [48 + a, 48 + b] = 10 * int a + int b"
  by (simp add: literal_value_def)

lemma literal_value4:
  "literal_value [48 + a, 48 + b, 48 + c, 48 + d] = 1000 * int a + 100 * int b + 10 * int c + int d"
  by (simp add: literal_value_def)

lemma decimal4:
  "1000 * (n div 1000) + 100 * (n div 100 mod 10) + 10 * (n div 10 mod 10) + n mod 10 = (n::nat)"
proof -
  have "n mod 100 = 10 * (n div 10 mod 10) + n mod 10"
    using mod_mult2_eq [of n 10 10] by simp
  moreover have "n mod 1000 = 100 * (n div 100 mod 10) + n mod 100"
    using mod_mult2_eq [of n 100 10] by simp
  moreover have "n = 1000 * (n div 1000) + n mod 1000"
    by simp
  ultimately show ?thesis by linarith
qed

lemma decimal2: "10 * (n div 10) + n mod 10 = (n::nat)"
  by simp

lemma days_in_month_le:
  assumes "1 \<le> m" and "m \<le> 12"
  shows "days_in_month y m \<le> 31"
proof -
  have "list_all (\<lambda>m. DAYS_IN_MONTH ! nat (m - 1) \<le> 31) [1..12]"
    by code_simp
  moreover from assms have "m \<in> set [1..12]" by simp
  ultimately have "DAYS_IN_MONTH ! nat (m - 1) \<le> 31"
    by (simp only: list_all_iff)
  then show ?thesis by (simp add: days_in_month_def)
qed

lemma digit_chars:
  "is_digit (48 + x mod 10)" "x < 100 \<Longrightarrow> is_digit (48 + x div 10)"
  "x < 10000 \<Longrightarrow> is_digit (48 + x div 1000)"
  by (simp_all add: is_digit_def)

lemma parse_isoformat:
  assumes "valid_date d"
  shows "parse_iso_date (isoformat d) = Some d"
proof -
  define y m dd where "y = nat (year d)" and "m = nat (month d)" and "dd = nat (day d)"
  from assms have bounds: "1 \<le> year d" "year d \<le> 9999" "1 \<le> month d" "month d \<le> 12"
    "1 \<le> day d" "day d \<le> days_in_month (year d) (month d)"
    by (simp_all add: valid_date_def)
  with days_in_month_le [of "month d" "year d"] have day31: "day d \<le> 31" by simp
  have ints: "year d = int y" "month d = int m" "day d = int dd"
    using bounds by (simp_all add: y_def m_def dd_def)
  have lt: "y < 10000" "m < 100" "dd < 100"
    using bounds day31 by (simp_all add: y_def m_def dd_def)
  have iso: "isoformat d =
      [48 + y div 1000, 48 + y div 100 mod 10, 48 + y div 10 mod 10, 48 + y mod 10, 45,
       48 + m div 10, 48 + m mod 10, 45, 48 + dd div 10, 48 + dd mod 10]"
    by (simp add: isoformat_def ints pad4 [OF lt(1)] pad2 [OF lt(2)] pad2 [OF lt(3)])
  have "int (1000 * (y div 1000) + 100 * (y div 100 mod 10) + 10 * (y div 10 mod 10) + y mod 10)
          = int y"
    by (simp only: decimal4)
  then have vy: "literal_value [48 + y div 1000, 48 + y div 100 mod 10, 48 + y div 10 mod 10, 48 + y mod 10]
            = year d"
    unfolding literal_value4 ints by simp
  have vm: "literal_value [48 + m div 10, 48 + m mod 10] = month d"
    unfolding literal_value2 ints by presburger
  have vd: "literal_value [48 + dd div 10, 48 + dd mod 10] = day d"
    unfolding literal_value2 ints by presburger
  have digs: "list_all is_digit
      [48 + y div 1000, 48 + y div 100 mod 10, 48 + y div 10 mod 10, 48 + y mod 10,
       48 + m div 10, 48 + m mod 10, 48 + dd div 10, 48 + dd mod 10]"
    using lt by (simp add: digit_chars)
  have rec: "\<lparr>year = year d, month = month d, day = day d\<rparr> = d" by simp
  show ?thesis
    unfolding iso parse_iso_date_def
    by (simp only: list.case vy vm vd digs rec assms Let_def simp_thms if_True)
qed

lemma months_ok: "months_ok leap"
proof -
  have "months_ok True" "months_ok False" by code_simp+
  then show ?thesis by (cases leap) simp_all
qed

lemma months:
  assumes "1 \<le> m" and "m \<le> 12"
  shows "0 \<le> days_before_month y m"
    and "days_before_month y m + days_in_month y m \<le> 365 + (if is_leap y then 1 else 0)"
    and "m < m' \<Longrightarrow> m' \<le> 12 \<Longrightarrow>
         days_before_month y m + days_in_month y m \<le> days_before_month y m'"
proof -
  from assms have m: "m \<in> set [1..12]" by simp
  from months_ok [of "is_leap y"] m
  have 1: "0 \<le> DAYS_BEFORE_MONTH ! nat (m - 1)"
    and 2: "DAYS_BEFORE_MONTH ! nat (m - 1) + (if 2 < m \<and> is_leap y then 1 else 0)
            + (if m = 2 \<and> is_leap y then 29 else DAYS_IN_MONTH ! nat (m - 1))
          \<le> 365 + (if is_leap y then 1 else 0)"
    and 3: "list_all (\<lambda>m'. m < m' \<longrightarrow>
              DAYS_BEFORE_MONTH ! nat (m - 1) + (if 2 < m \<and> is_leap y then 1 else 0)
              + (if m = 2 \<and> is_leap y then 29 else DAYS_IN_MONTH ! nat (m - 1))
              \<le> DAYS_BEFORE_MONTH ! nat (m' - 1) + (if 2 < m' \<and> is_leap y then 1 else 0))
            [1..12]"
    unfolding months_ok_def list_all_iff by blast+
  from 1 show "0 \<le> days_before_month y m"
    by (simp add: days_before_month_def)
  from 2 show "days_before_month y m + days_in_month y m \<le> 365 + (if is_leap y then 1 else 0)"
    by (simp add: days_before_month_def days_in_month_def)
  show "days_before_month y m + days_in_month y m \<le> days_before_month y m'"
    if "m < m'" "m' \<le> 12"
  proof -
    from that assms have "m' \<in> set [1..12]" by simp
    with 3 that(1) show ?thesis
      unfolding list_all_iff by (simp add: days_before_month_def days_in_month_def)
  qed
qed

lemma div_step:
  fixes y k :: int
  assumes "0 < k"
  shows "y div k = (y - 1) div k + (if y mod k = 0 then 1 else 0)"
proof -
  define q r where "q = (y - 1) div k" and "r = (y - 1) mod k"
  have "y - 1 = k * q + r"
    unfolding q_def r_def by (rule mult_div_mod_eq [symmetric])
  then have y: "y = k * q + r + 1" by linarith
  have r: "0 \<le> r" "r < k"
    unfolding r_def using assms by (rule pos_mod_sign) (rule pos_mod_bound [OF assms])
  have "y div k = q + (if y mod k = 0 then 1 else 0)"
  proof (cases "r = k - 1")
    case True
    have "k * (q + 1) = k * q + k" by (rule distrib_left [of k q 1, simplified])
    with y True have eq: "y = k * (q + 1) + 0" by linarith
    have "y div k = q + 1"
      using eq order_refl assms by (rule int_div_pos_eq)
    moreover have "y mod k = 0"
      using eq order_refl assms by (rule int_mod_pos_eq)
    ultimately show ?thesis by simp
  next
    case False
    with r have r1: "0 \<le> r + 1" "r + 1 < k" by linarith+
    from y have eq: "y = k * q + (r + 1)" by linarith
    have "y div k = q"
      using eq r1 by (rule int_div_pos_eq)
    moreover have "y mod k = r + 1"
      using eq r1 by (rule int_mod_pos_eq)
    moreover from this r have "y mod k \<noteq> 0" by linarith
    ultimately show ?thesis by simp
  qed
  then show ?thesis unfolding q_def .
qed

lemma leap_count:
  assumes "R \<longrightarrow> Q" and "Q \<longrightarrow> P"
  shows "(if P then 1 else 0) - (if Q then 1 else 0) + (if R then 1 else 0)
           = (if P \<and> (\<not> Q \<or> R) then 1 else (0::int))"
  using assms by (cases P; cases Q; cases R) simp_all

lemma next_year:
  "days_before_year (y + 1) = days_before_year y + 365 + (if is_leap y then 1 else 0)"
proof -
  define p4 p100 p400 where "p4 = (y - 1) div 4" and "p100 = (y - 1) div 100"
    and "p400 = (y - 1) div 400"
  define a4 a100 a400 :: int where "a4 = (if y mod 4 = 0 then 1 else 0)"
    and "a100 = (if y mod 100 = 0 then 1 else 0)"
    and "a400 = (if y mod 400 = 0 then 1 else 0)"
  have d: "y div 4 = p4 + a4" "y div 100 = p100 + a100" "y div 400 = p400 + a400"
    unfolding p4_def p100_def p400_def a4_def a100_def a400_def
    by (rule div_step, simp)+
  have "y mod 400 mod 100 = y mod 100" "y mod 100 mod 4 = y mod 4"
    by (rule mod_mod_cancel, simp)+
  then have "y mod 400 = 0 \<longrightarrow> y mod 100 = 0" "y mod 100 = 0 \<longrightarrow> y mod 4 = 0"
    by (metis mod_0)+
  then have leap: "a4 - a100 + a400 = (if is_leap y then 1 else 0)"
    unfolding a4_def a100_def a400_def is_leap_def by (rule leap_count)
  have "y + 1 - 1 = y" by simp
  then have "days_before_year (y + 1) = y * 365 + y div 4 - y div 100 + y div 400"
    unfolding days_before_year_def Let_def by (simp only:)
  also have "\<dots> = y * 365 + (p4 + a4) - (p100 + a100) + (p400 + a400)"
    by (simp only: d)
  also have "\<dots> = ((y - 1) * 365 + p4 - p100 + p400) + 365 + (a4 - a100 + a400)"
    by (simp add: algebra_simps)
  also have "(y - 1) * 365 + p4 - p100 + p400 = days_before_year y"
    unfolding days_before_year_def Let_def p4_def p100_def p400_def by (rule refl)
  finally show ?thesis
    by (simp only: leap)
qed

lemma days_before_year_mono:
  assumes "y \<le> y'"
  shows "days_before_year y \<le> days_before_year y'"
  using assms
proof (induction y' rule: int_ge_induct)
  case base
  show ?case by (rule order_refl)
next
  case (step i)
  have "days_before_year i \<le> days_before_year (i + 1)"
    unfolding next_year by (cases "is_leap i") simp_all
  with step.IH show ?case by (rule order_trans)
qed

lemma ymd2ord_mono:
  assumes "valid_date d" and "valid_date d'" and "before d d'"
  shows "ymd2ord d < ymd2ord d'"
proof -
  from assms(1) have d: "1 \<le> month d" "month d \<le> 12" "1 \<le> day d"
    "day d \<le> days_in_month (year d) (month d)"
    by (simp_all add: valid_date_def)
  from assms(2) have d': "1 \<le> month d'" "month d' \<le> 12" "1 \<le> day d'"
    by (simp_all add: valid_date_def)
  consider "year d < year d'" | "year d = year d'" "month d < month d'"
    | "year d = year d'" "month d = month d'" "day d < day d'"
    using assms(3) by (auto simp: before_def)
  then show ?thesis
  proof cases
    case 1
    then have "days_before_year (year d + 1) \<le> days_before_year (year d')"
      by (intro days_before_year_mono) simp
    with months(2) [OF d(1,2), of "year d"] months(1) [OF d'(1,2), of "year d'"] d(4) d'(3)
    show ?thesis
      by (simp add: ymd2ord_def next_year)
  next
    case 2
    with months(3) [OF d(1,2) 2(2) d'(2), of "year d"] d(4) d'(3) show ?thesis
      by (simp add: ymd2ord_def)
  next
    case 3
    then show ?thesis by (simp add: ymd2ord_def)
  qed
qed

lemma add_days_result:
  "date_tool lib \<lparr>operation = lit ''add_days'', base_date = Some b, days = Some n,
                   second_date = x\<rparr>
     = (if \<bar>n\<bar> \<le> 999999999 \<and> 1 \<le> ymd2ord b + n \<and> ymd2ord b + n \<le> MAXORDINAL
        then Inr (isoformat (ord2ymd (ymd2ord b + n)))
        else if \<bar>n\<bar> \<le> 999999999 then Inl (OverflowError lib Date_out_of_range)
        else Inl (OverflowError lib (Days_magnitude n)))"
  by (simp add: date_tool_def timedelta_def date_add_def and_then_def Let_def)

lemma diff_days_result:
  "date_tool lib \<lparr>operation = lit ''diff_days'', base_date = Some b, days = y,
                   second_date = Some c\<rparr>
     = Inr (str_int (ymd2ord c - ymd2ord b))"
  by (simp add: date_tool_def)

text \<open>
  Claim C5, as stated, fails: for the base date 0001-01-01 and \<open>n = -1\<close>, \<open>add_days\<close>
  raises \<open>OverflowError\<close>, and there is no result to take the difference with.
\<close>

theorem add_days_overflow_counterexample:
  "date_tool cpython
     \<lparr>operation = lit ''add_days'', base_date = Some \<lparr>year = 1, month = 1, day = 1\<rparr>,
      days = Some (- 1), second_date = None\<rparr>
   = Inl (Exception (lit ''OverflowError'') (Some (Inr (lit ''date value out of range''))))
   \<and> valid_date \<lparr>year = 1, month = 1, day = 1\<rparr>"
  by code_simp

text \<open>
  Claim C5, amended. When \<open>add_days\<close> on a base date and \<open>n\<close> returns a text, the text
  validates as a date, and \<open>diff_days\<close> on the base date and that date returns \<open>n\<close>.
  \<open>add_days\<close> returns exactly when \<open>n\<close> is at most 999999999 in magnitude and the new
  date lies in 0001-01-01 .. 9999-12-31. \<open>diff_days\<close> returns the ordinal of the second
  date minus that of the base date; for a second date before the base date in the
  calendar this number is negative, and its text begins with a minus sign.
\<close>

theorem add_days_then_diff_days:
  "(date_tool lib \<lparr>operation = lit ''add_days'', base_date = Some b, days = Some n,
                    second_date = x\<rparr> = Inr s \<longrightarrow>
      (\<exists>d. validate_date lib (JStr s) = Some d \<and> valid_date d
          \<and> date_tool lib \<lparr>operation = lit ''diff_days'', base_date = Some b, days = y,
                            second_date = Some d\<rparr> = Inr (str_int n)))
   \<and> ((\<exists>s. date_tool lib \<lparr>operation = lit ''add_days'', base_date = Some b, days = Some n,
                          second_date = x\<rparr> = Inr s)
       \<longleftrightarrow> \<bar>n\<bar> \<le> 999999999 \<and> 1 \<le> ymd2ord b + n \<and> ymd2ord b + n \<le> MAXORDINAL)
   \<and> date_tool lib \<lparr>operation = lit ''diff_days'', base_date = Some b, days = y,
                     second_date = Some c\<rparr> = Inr (str_int (ymd2ord c - ymd2ord b))
   \<and> (valid_date b \<and> valid_date c \<and> before c b \<longrightarrow>
        ymd2ord c - ymd2ord b < 0 \<and> hd (str_int (ymd2ord c - ymd2ord b)) = 45)"
proof -
  have composed: "date_tool lib \<lparr>operation = lit ''add_days'', base_date = Some b, days = Some n,
                    second_date = x\<rparr> = Inr s \<longrightarrow>
      (\<exists>d. validate_date lib (JStr s) = Some d \<and> valid_date d
          \<and> date_tool lib \<lparr>operation = lit ''diff_days'', base_date = Some b, days = y,
                            second_date = Some d\<rparr> = Inr (str_int n))"
  proof
    assume "date_tool lib \<lparr>operation = lit ''add_days'', base_date = Some b, days = Some n,
                    second_date = x\<rparr> = Inr s"
    then have range: "1 \<le> ymd2ord b + n" "ymd2ord b + n \<le> MAXORDINAL"
      and s: "s = isoformat (ord2ymd (ymd2ord b + n))"
      unfolding add_days_result by (auto split: if_splits)
    let ?d = "ord2ymd (ymd2ord b + n)"
    from ord2ymd_inverse [OF range] have d: "valid_date ?d" "ymd2ord ?d = ymd2ord b + n"
      by simp_all
    from parse_isoformat [OF d(1)] have "validate_date lib (JStr s) = Some ?d"
      by (simp add: validate_date_def s)
    moreover have "date_tool lib \<lparr>operation = lit ''diff_days'', base_date = Some b, days = y,
                            second_date = Some ?d\<rparr> = Inr (str_int n)"
      unfolding diff_days_result d(2) by simp
    ultimately show "\<exists>d. validate_date lib (JStr s) = Some d \<and> valid_date d
          \<and> date_tool lib \<lparr>operation = lit ''diff_days'', base_date = Some b, days = y,
                            second_date = Some d\<rparr> = Inr (str_int n)"
      using d(1) by blast
  qed
  have succeeds: "(\<exists>s. date_tool lib \<lparr>operation = lit ''add_days'', base_date = Some b,
                          days = Some n, second_date = x\<rparr> = Inr s)
       \<longleftrightarrow> \<bar>n\<bar> \<le> 999999999 \<and> 1 \<le> ymd2ord b + n \<and> ymd2ord b + n \<le> MAXORDINAL"
    unfolding add_days_result by simp
  have negative: "valid_date b \<and> valid_date c \<and> before c b \<longrightarrow>
        ymd2ord c - ymd2ord b < 0 \<and> hd (str_int (ymd2ord c - ymd2ord b)) = 45"
    using ymd2ord_mono [of c b] by (simp add: str_int_def)
  show ?thesis
    by (rule conjI [OF composed conjI [OF succeeds conjI [OF diff_days_result negative]]])
qed

lemma add_days_2023:
  "date_tool cpython
     \<lparr>operation = lit ''add_days'', base_date = Some \<lparr>year = 2023, month = 1, day = 1\<rparr>,
      days = Some 5, second_date = None\<rparr> = Inr (lit ''2023-01-06'')"
  by code_simp

lemma ordinal_2023_12_31: "ymd2ord \<lparr>year = 2023, month = 12, day = 31\<rparr> = 738885"
  by code_simp

theorem add_days_then_diff_days_witness:
  "date_tool cpython
     \<lparr>operation = lit ''add_days'', base_date = Some \<lparr>year = 2023, month = 1, day = 1\<rparr>,
      days = Some 5, second_date = None\<rparr> = Inr (lit ''2023-01-06'')
   \<and> (\<exists>d. validate_date cpython (JStr (lit ''2023-01-06'')) = Some d \<and> valid_date d
         \<and> date_tool cpython
             \<lparr>operation = lit ''diff_days'', base_date = Some \<lparr>year = 2023, month = 1, day = 1\<rparr>,
              days = None, second_date = Some d\<rparr> = Inr (lit ''5''))
   \<and> date_tool cpython
       \<lparr>operation = lit ''diff_days'', base_date = Some \<lparr>year = 2023, month = 1, day = 1\<rparr>,
        days = None, second_date = Some \<lparr>year = 2023, month = 12, day = 31\<rparr>\<rparr>
       = Inr (lit ''364'')"
  using add_days_then_diff_days [of cpython "\<lparr>year = 2023, month = 1, day = 1\<rparr>" 5 None
      "lit ''2023-01-06''" None "\<lparr>year = 2023, month = 12, day = 31\<rparr>"]
    add_days_2023 ordinal_2023 ordinal_2023_12_31
  by (simp add: str_int_def)


end
